theory Spec2Isabelle
  imports Main "HOL-Library.Sublist"
begin

section \<open>Common data\<close>

text \<open>
  A JavaScript \<^verbatim>\<open>Error\<close> is identified by its message: the services throw
  \<^verbatim>\<open>new Error('...')\<close> and the resolver inspects \<^verbatim>\<open>error.message\<close>.
  A function that can throw returns \<open>error + 'a\<close>, \<open>Inl\<close> being the throw.
\<close>

datatype error = Error (message: string)

type_synonym address = string

text \<open>
  \<^verbatim>\<open>a || b\<close> on optional strings: the empty string and \<^verbatim>\<open>undefined\<close> are falsy, and
  the second operand is returned as it is when the first is falsy.
\<close>

definition truthy :: "string option \<Rightarrow> bool" where
  "truthy a = (case a of None \<Rightarrow> False | Some s \<Rightarrow> s \<noteq> [])"

definition js_or :: "string option \<Rightarrow> string option \<Rightarrow> string option" where
  "js_or a b = (if truthy a then a else b)"

text \<open>\<^verbatim>\<open>a || b\<close> on optional numbers: \<^verbatim>\<open>0\<close> and \<^verbatim>\<open>undefined\<close> are falsy.\<close>

definition num_or :: "int option \<Rightarrow> int option \<Rightarrow> int option" where
  "num_or a b = (case a of None \<Rightarrow> b | Some n \<Rightarrow> if n \<noteq> 0 then a else b)"

definition num_or0 :: "int option \<Rightarrow> int" where
  "num_or0 a = (case a of None \<Rightarrow> 0 | Some n \<Rightarrow> n)"

text \<open>\<^verbatim>\<open>String.prototype.toLowerCase\<close> on ASCII letters; other bytes are kept.\<close>

definition lower_char :: "char \<Rightarrow> char" where
  "lower_char c =
     (let n = (of_char c :: nat)
      in if 65 \<le> n \<and> n \<le> 90 then char_of (n + 32) else c)"

definition toLowerCase :: "string \<Rightarrow> string" where
  "toLowerCase s = map lower_char s"

text \<open>\<^verbatim>\<open>msg.includes(p)\<close>: \<open>p\<close> occurs in \<open>msg\<close> as a contiguous substring.\<close>

definition msg_includes :: "string \<Rightarrow> string \<Rightarrow> bool" where
  "msg_includes msg p = sublist p msg"


section \<open>Resolution-data provider adapter (services/external-api/sports.js)\<close>

subsection \<open>Outcome records and the provider's payload\<close>

datatype game_status = Pending | Finished

datatype winner = Home | Away | Draw

record outcome =
  status :: game_status
  homeScore :: int
  awayScore :: int
  winner :: "winner option"
  finishedAt :: "string option"

text \<open>The fields of a provider payload that \<^verbatim>\<open>extractGameOutcome\<close> reads.\<close>

record provider_data =
  HomeTeamScore :: "int option"
  HomeScore :: "int option"
  AwayTeamScore :: "int option"
  AwayScore :: "int option"
  IsClosed :: bool
  Status :: "string option"
  GameStatus :: "string option"
  DateTime :: "string option"

datatype payload = Obj provider_data | Arr "provider_data list"

text \<open>What \<^verbatim>\<open>axios.get\<close> does: a body, an error response, no response, or a set-up error.\<close>

datatype http_response =
    HttpOk payload
  | HttpErrorResponse string
  | HttpNoResponse
  | HttpSetupError string

text \<open>A payload with no field set: what reading fields of an empty array gives.\<close>

definition no_fields :: provider_data where
  "no_fields = \<lparr>HomeTeamScore = None, HomeScore = None, AwayTeamScore = None, AwayScore = None,
                 IsClosed = False, Status = None, GameStatus = None, DateTime = None\<rparr>"

definition extractGameOutcome :: "string \<Rightarrow> payload \<Rightarrow> string \<Rightarrow> outcome" where
  "extractGameOutcome nowIso data0 sport =
     (let data = (case data0 of Obj d \<Rightarrow> d | Arr [] \<Rightarrow> no_fields | Arr (d # _) \<Rightarrow> d);
          hs = num_or0 (num_or (HomeTeamScore data) (HomeScore data));
          as = num_or0 (num_or (AwayTeamScore data) (AwayScore data));
          isFinished = (IsClosed data \<or> Status data = Some ''Final''
                        \<or> GameStatus data = Some ''Final'')
      in if \<not> isFinished then
           \<lparr>status = Pending, homeScore = hs, awayScore = as, winner = None, finishedAt = None\<rparr>
         else
           \<lparr>status = Finished, homeScore = hs, awayScore = as,
            winner = Some (if hs > as then Home else if as > hs then Away else Draw),
            finishedAt = js_or (DateTime data) (Some nowIso)\<rparr>)"

text \<open>
  The score that a payload reports in a pair of fields: the first field when it is
  present and not \<open>0\<close>, otherwise the second field when it is present, otherwise \<open>0\<close>.
\<close>

fun reported_score :: "int option \<Rightarrow> int option \<Rightarrow> int" where
  "reported_score (Some n) (Some m) = (if n \<noteq> 0 then n else m)"
| "reported_score (Some n) None = n"
| "reported_score None (Some m) = m"
| "reported_score None None = 0"

subsection \<open>The rate limiter\<close>

record sports_service =
  rateLimit :: nat
  requestCount :: nat
  requestWindowStart :: int

definition windowMs :: int where
  "windowMs = 15 * 60 * 1000"

definition rate_limited :: error where
  "rate_limited = Error ''Rate limit exceeded. Please try again later.''"

text \<open>
  \<^verbatim>\<open>checkRateLimit\<close> at time \<open>now\<close> (\<^verbatim>\<open>Date.now()\<close>, milliseconds). The window reset
  is kept when the call then throws.
\<close>

definition checkRateLimit :: "int \<Rightarrow> sports_service \<Rightarrow> (error + unit) \<times> sports_service" where
  "checkRateLimit now sv =
     (let sv1 = (if now - requestWindowStart sv > windowMs
                 then sv\<lparr>requestCount := 0, requestWindowStart := now\<rparr> else sv)
      in if requestCount sv1 \<ge> rateLimit sv1 then (Inl rate_limited, sv1)
         else (Inr (), sv1\<lparr>requestCount := requestCount sv1 + 1\<rparr>))"

text \<open>
  \<^verbatim>\<open>makeRequest\<close>: the limiter runs before the HTTP call, so a rejected request
  never reaches the provider. \<open>http\<close> is the provider's answer for an endpoint, and
  \<open>httpResult\<close> is the \<^verbatim>\<open>try\<close>/\<^verbatim>\<open>catch\<close> around \<^verbatim>\<open>axios.get\<close>.
\<close>

definition httpResult :: "http_response \<Rightarrow> error + payload" where
  "httpResult r =
     (case r of
        HttpOk body \<Rightarrow> Inr body
      | HttpErrorResponse statusText \<Rightarrow> Inl (Error (''API request failed: '' @ statusText))
      | HttpNoResponse \<Rightarrow> Inl (Error ''Network error: Unable to reach API'')
      | HttpSetupError msg \<Rightarrow> Inl (Error msg))"

definition makeRequest ::
  "(string \<Rightarrow> http_response) \<Rightarrow> int \<Rightarrow> string \<Rightarrow> sports_service
     \<Rightarrow> (error + payload) \<times> sports_service" where
  "makeRequest http now endpoint sv =
     (case checkRateLimit now sv of
        (Inl e, sv1) \<Rightarrow> (Inl e, sv1)
      | (Inr _, sv1) \<Rightarrow> (httpResult (http endpoint), sv1))"

text \<open>Successive requests for one endpoint at the given times: their results, in order.\<close>

fun makeRequests ::
  "(string \<Rightarrow> http_response) \<Rightarrow> int list \<Rightarrow> string \<Rightarrow> sports_service
     \<Rightarrow> (error + payload) list \<times> sports_service" where
  "makeRequests http [] endpoint sv = ([], sv)"
| "makeRequests http (t # ts) endpoint sv =
     (case makeRequest http t endpoint sv of
        (r, sv1) \<Rightarrow>
          (case makeRequests http ts endpoint sv1 of
             (rs, sv2) \<Rightarrow> (r # rs, sv2)))"


section \<open>Projection store (the tables of database/migrations)\<close>

datatype market_status = Active | Resolved

text \<open>The resolution-routing part of a market's \<^verbatim>\<open>metadata\<close> column.\<close>

record market_metadata =
  gameId :: "string option"
  sport :: "string option"
  outcomeType :: "string option"
  spread :: "int option"
  threshold :: "int option"

text \<open>A row of \<^verbatim>\<open>markets\<close>, as the model object the services read.\<close>

record market =
  marketId :: address
  question :: string
  marketStatus :: market_status
  resolutionTime :: "int option"
  totalVolume :: int
  totalLiquidity :: int
  outcomeCount :: nat
  outcomes :: "string list"
  creatorAddress :: "string option"
  metadata :: "market_metadata option"

datatype event_name = MarketCreated | SharesPurchased | SharesSold | LiquidityAdded | MarketResolved

text \<open>
  A row of \<^verbatim>\<open>market_events\<close> (the opaque \<^verbatim>\<open>data\<close> column is left out). The table is
  declared with \<^verbatim>\<open>UNIQUE(transaction_hash, log_index)\<close>.
\<close>

record event_row =
  e_marketId :: address
  e_eventType :: event_name
  e_userAddress :: "string option"
  e_outcomeId :: "int option"
  e_shares :: "int option"
  e_cost :: "int option"
  e_blockNumber :: int
  e_transactionHash :: string
  e_logIndex :: int
  e_timestamp :: int

record user_row =
  u_username :: "string option"
  u_totalTrades :: int
  u_totalVolume :: int

text \<open>
  A call on the user model: \<^verbatim>\<open>User.upsert({ address })\<close>, or
  \<^verbatim>\<open>User.updateStats(address, { totalTrades, totalVolume })\<close> with its two values.
\<close>

datatype user_call = UserUpsert address | UserUpdateStats address int int

record history_row =
  h_marketId :: address
  h_prices :: "int list"
  h_volume :: int
  h_liquidity :: int
  h_timestamp :: int

text \<open>A row of \<^verbatim>\<open>external_data\<close>; its \<^verbatim>\<open>market_id\<close> references \<^verbatim>\<open>markets(id)\<close>.\<close>

record cache_row =
  c_market_id :: string
  c_data_type :: string
  c_data :: outcome
  c_expires_at :: int
  c_created_at :: int

record db =
  markets :: "address \<rightharpoonup> market"
  market_events :: "event_row list"
  user_calls :: "user_call list"
  markets_history :: "history_row list"
  external_data :: "cache_row list"


subsection \<open>Cache-aside lookups of the adapter\<close>

text \<open>
  \<^verbatim>\<open>getCachedData\<close>: the unexpired rows of the key, the one created last
  (\<^verbatim>\<open>ORDER BY created_at DESC LIMIT 1\<close>).
\<close>

fun latest_row :: "cache_row \<Rightarrow> cache_row list \<Rightarrow> cache_row" where
  "latest_row best [] = best"
| "latest_row best (r # rs) =
     latest_row (if c_created_at r > c_created_at best then r else best) rs"

definition getCachedData :: "int \<Rightarrow> string \<Rightarrow> string \<Rightarrow> db \<Rightarrow> outcome option" where
  "getCachedData now mid dataType d =
     (case filter (\<lambda>r. c_market_id r = mid \<and> c_data_type r = dataType \<and> c_expires_at r > now)
             (external_data d) of
        [] \<Rightarrow> None
      | r # rs \<Rightarrow> Some (c_data (latest_row r rs)))"

text \<open>
  \<^verbatim>\<open>cacheData\<close>: the table has no unique constraint, so \<^verbatim>\<open>ON CONFLICT DO NOTHING\<close>
  never applies; the foreign key rejects a \<^verbatim>\<open>market_id\<close> that is no market, and the
  function catches that error.
\<close>

definition cacheData :: "int \<Rightarrow> string \<Rightarrow> string \<Rightarrow> outcome \<Rightarrow> int \<Rightarrow> db \<Rightarrow> db" where
  "cacheData now mid dataType data ttlMinutes d =
     (if markets d mid \<noteq> None then
        d\<lparr>external_data := external_data d @
             [\<lparr>c_market_id = mid, c_data_type = dataType, c_data = data,
               c_expires_at = now + ttlMinutes * 60 * 1000, c_created_at = now\<rparr>]\<rparr>
      else d)"

text \<open>The external world of one adapter call: the provider and the clock.\<close>

record env =
  httpGet :: "string \<Rightarrow> http_response"
  dateNow :: int
  isoNow :: string

definition fetchOutcome ::
  "env \<Rightarrow> string \<Rightarrow> string \<Rightarrow> string \<Rightarrow> sports_service \<times> db
     \<Rightarrow> (error + outcome) \<times> sports_service \<times> db" where
  "fetchOutcome ev endpoint gid sp st =
     (case makeRequest (httpGet ev) (dateNow ev) endpoint (fst st) of
        (Inl e, sv1) \<Rightarrow> (Inl e, sv1, snd st)
      | (Inr data, sv1) \<Rightarrow>
          (let oc = extractGameOutcome (isoNow ev) data sp
           in (Inr oc, sv1, cacheData (dateNow ev) gid ''game_outcome'' oc 1440 (snd st))))"

definition getGameOutcome ::
  "env \<Rightarrow> string \<Rightarrow> string \<Rightarrow> sports_service \<times> db
     \<Rightarrow> (error + outcome) \<times> sports_service \<times> db" where
  "getGameOutcome ev gid sp st =
     (case getCachedData (dateNow ev) gid ''game_outcome'' (snd st) of
        Some cached \<Rightarrow> (Inr cached, st)
      | None \<Rightarrow>
          (if toLowerCase sp = ''nfl'' then
             fetchOutcome ev (''/nfl/scores/json/Scores/'' @ gid) gid sp st
           else if toLowerCase sp = ''nba'' then
             fetchOutcome ev (''/nba/scores/json/Game/'' @ gid) gid sp st
           else if toLowerCase sp = ''mlb'' then
             fetchOutcome ev (''/mlb/scores/json/Game/'' @ gid) gid sp st
           else (Inl (Error (''Unsupported sport: '' @ sp)), st)))"

subsection \<open>Outcome-to-index mapping\<close>

record resolution =
  resolved :: bool
  reason :: "string option"
  winningOutcome :: "int option"
  game :: "outcome option"

text \<open>
  The mapping inside \<^verbatim>\<open>resolveMarket\<close>; \<open>None\<close> is the \<^verbatim>\<open>null\<close> that
  \<^verbatim>\<open>winningOutcome\<close> keeps when no branch of the chain applies.
\<close>

definition mapOutcome :: "market_metadata \<Rightarrow> outcome \<Rightarrow> int option" where
  "mapOutcome md oc =
     (if outcomeType md = Some ''winner'' then
        Some (if winner oc = Some Home then 0 else if winner oc = Some Away then 1 else 2)
      else if outcomeType md = Some ''spread'' then
        Some (if homeScore oc - awayScore oc \<ge> num_or0 (spread md) then 0 else 1)
      else if outcomeType md = Some ''over_under'' then
        Some (if homeScore oc + awayScore oc > num_or0 (threshold md) then 0 else 1)
      else None)"

definition no_metadata :: market_metadata where
  "no_metadata = \<lparr>gameId = None, sport = None, outcomeType = None, spread = None,
                   threshold = None\<rparr>"

definition resolveMarket ::
  "env \<Rightarrow> market \<Rightarrow> sports_service \<times> db \<Rightarrow> (error + resolution) \<times> sports_service \<times> db" where
  "resolveMarket ev marketData st =
     (let md = (case metadata marketData of None \<Rightarrow> no_metadata | Some m \<Rightarrow> m)
      in case gameId md of
           None \<Rightarrow> (Inl (Error ''Game ID not found in market metadata''), st)
         | Some gid \<Rightarrow>
             if gid = [] then (Inl (Error ''Game ID not found in market metadata''), st)
             else
               (case getGameOutcome ev gid
                       (case sport md of None \<Rightarrow> ''nfl'' | Some s \<Rightarrow> if s = [] then ''nfl'' else s)
                       st of
                  (Inl e, st1) \<Rightarrow> (Inl e, st1)
                | (Inr oc, st1) \<Rightarrow>
                    if status oc \<noteq> Finished then
                      (Inr \<lparr>resolved = False, reason = Some ''Game not finished yet'',
                            winningOutcome = None, game = None\<rparr>, st1)
                    else
                      (Inr \<lparr>resolved = True, reason = None, winningOutcome = mapOutcome md oc,
                            game = Some oc\<rparr>, st1)))"


section \<open>Resolution scheduler (services/oracle/resolver.js)\<close>

text \<open>
  The scheduler's state: the adapter, the store, and the calls made to
  \<^verbatim>\<open>writeContract\<close> (address and the argument of \<^verbatim>\<open>resolveMarket\<close>, which is
  \<^verbatim>\<open>null\<close> when the mapping produced none).
\<close>

record sched =
  service :: sports_service
  store :: db
  writeCalls :: "(address \<times> int option) list"

text \<open>
  Modelled from the spec: \<^verbatim>\<open>Market.updateStatus\<close> (database/models/Market.js is not
  available) as the store's \<^verbatim>\<open>setEntityStatus\<close>, an update of the status column
  of the row with that id.
\<close>

definition Market_updateStatus :: "address \<Rightarrow> market_status \<Rightarrow> db \<Rightarrow> db" where
  "Market_updateStatus mid st d =
     (case markets d mid of
        None \<Rightarrow> d
      | Some m \<Rightarrow> d\<lparr>markets := (markets d)(mid \<mapsto> m\<lparr>marketStatus := st\<rparr>)\<rparr>)"

text \<open>
  \<^verbatim>\<open>callResolveMarket\<close>: \<open>wc\<close> is what the chain answers to the transaction, a
  receipt's hash or the error thrown. The result \<open>Inr None\<close> is the \<^verbatim>\<open>return null\<close>
  of the already-resolved branch.
\<close>

definition callResolveMarket ::
  "(address \<Rightarrow> int option \<Rightarrow> error + string) \<Rightarrow> address \<Rightarrow> int option \<Rightarrow> sched
     \<Rightarrow> (error + string option) \<times> sched" where
  "callResolveMarket wc marketAddress wo s =
     (let s1 = s\<lparr>writeCalls := writeCalls s @ [(marketAddress, wo)]\<rparr>
      in case wc marketAddress wo of
           Inr receipt \<Rightarrow> (Inr (Some receipt), s1)
         | Inl e \<Rightarrow>
             if msg_includes (message e) ''already resolved''
                \<or> msg_includes (message e) ''MarketResolved''
             then (Inr None, s1)
             else (Inl e, s1))"

text \<open>The four ways \<^verbatim>\<open>resolveMarketIfReady\<close> returns normally, told apart by its log line.\<close>

datatype ready_result =
    SkipAlreadyResolved
  | SkipNotDue
  | SkipNotReady "string option"
  | DidResolve "int option"

definition resolveMarketIfReady ::
  "env \<Rightarrow> (address \<Rightarrow> int option \<Rightarrow> error + string) \<Rightarrow> market \<Rightarrow> sched
     \<Rightarrow> (error + ready_result) \<times> sched" where
  "resolveMarketIfReady ev wc mk s =
     (if marketStatus mk = Resolved then (Inr SkipAlreadyResolved, s)
      else if (case resolutionTime mk of None \<Rightarrow> False | Some t \<Rightarrow> dateNow ev < t)
      then (Inr SkipNotDue, s)
      else
        (case resolveMarket ev mk (service s, store s) of
           (Inl e, sv1, d1) \<Rightarrow> (Inl e, s\<lparr>service := sv1, store := d1\<rparr>)
         | (Inr res, sv1, d1) \<Rightarrow>
             (let s1 = s\<lparr>service := sv1, store := d1\<rparr>
              in if \<not> resolved res then (Inr (SkipNotReady (reason res)), s1)
                 else
                   (case callResolveMarket wc (marketId mk) (winningOutcome res) s1 of
                      (Inl e, s2) \<Rightarrow> (Inl e, s2)
                    | (Inr _, s2) \<Rightarrow>
                        (Inr (DidResolve (winningOutcome res)),
                         s2\<lparr>store := Market_updateStatus (marketId mk) Resolved (store s2)\<rparr>)))))"

text \<open>
  \<^verbatim>\<open>checkAndResolveMarkets\<close> over the rows that
  \<^verbatim>\<open>Market.findMarketsApproachingResolution(60)\<close> returned. Each market's result is
  recorded with its id: \<open>Inl\<close> is the error the inner \<^verbatim>\<open>catch\<close> logs before the loop goes
  on.
\<close>

fun checkAndResolveMarkets ::
  "env \<Rightarrow> (address \<Rightarrow> int option \<Rightarrow> error + string) \<Rightarrow> market list \<Rightarrow> sched
     \<Rightarrow> (address \<times> (error + ready_result)) list \<times> sched" where
  "checkAndResolveMarkets ev wc [] s = ([], s)"
| "checkAndResolveMarkets ev wc (mk # mks) s =
     (case resolveMarketIfReady ev wc mk s of
        (r, s1) \<Rightarrow>
          (case checkAndResolveMarkets ev wc mks s1 of
             (rs, s2) \<Rightarrow> ((marketId mk, r) # rs, s2)))"


section \<open>Chain event indexer (services/blockchain/indexer.js)\<close>

subsection \<open>Logs and the RPC client\<close>

text \<open>The event arguments the handlers read; an argument the event lacks is \<open>None\<close>.\<close>

record log_args =
  a_market :: "string option"
  a_marketAddress :: "string option"
  a_creator :: "string option"
  a_creatorAddress :: "string option"
  a_question :: "string option"
  a_outcomes :: "string list option"
  a_user :: "string option"
  a_buyer :: "string option"
  a_seller :: "string option"
  a_provider :: "string option"
  a_outcome :: "int option"
  a_shares :: "int option"
  a_cost :: "int option"
  a_amount :: "int option"
  a_winningOutcome :: "int option"

record log =
  l_address :: address
  l_eventName :: event_name
  l_args :: log_args
  l_blockNumber :: int
  l_transactionHash :: string
  l_logIndex :: int

text \<open>
  The chain as the RPC client shows it at one moment: its logs in chain order, the error
  with which a log query fails (\<open>None\<close> when the query is answered), the head
  (\<open>None\<close> when \<^verbatim>\<open>getBlockNumber\<close> throws), block timestamps (\<open>None\<close> when
  \<^verbatim>\<open>getBlock\<close> throws) and the contract reads of the snapshot (\<open>None\<close> when
  \<^verbatim>\<open>readContract\<close> throws).
\<close>

record chain =
  chainLogs :: "log list"
  logsError :: "address \<Rightarrow> event_name \<Rightarrow> int \<Rightarrow> int \<Rightarrow> error option"
  blockNumber :: "int option"
  blockTimestamp :: "int \<Rightarrow> int option"
  getPrice :: "address \<Rightarrow> nat \<Rightarrow> int option"
  readTotalVolume :: "address \<Rightarrow> int option"
  readTotalLiquidity :: "address \<Rightarrow> int option"

text \<open>
  \<^verbatim>\<open>getContractLogs\<close>: the logs of one address and event in the closed block range,
  in chain order, or the error that the client throws for this query (a node that is
  unreachable, a range wider than the node accepts, an event that the ABI lacks).
\<close>

definition getContractLogs ::
  "chain \<Rightarrow> address \<Rightarrow> event_name \<Rightarrow> int \<Rightarrow> int \<Rightarrow> error + log list" where
  "getContractLogs ch addr ev fromBlock toBlock =
     (case logsError ch addr ev fromBlock toBlock of
        Some e \<Rightarrow> Inl e
      | None \<Rightarrow>
          Inr (filter (\<lambda>l. l_address l = addr \<and> l_eventName l = ev
                            \<and> fromBlock \<le> l_blockNumber l \<and> l_blockNumber l \<le> toBlock)
                 (chainLogs ch)))"

record config =
  marketFactory :: "string option"
  batchSize :: int

text \<open>
  The indexer object. \<open>lastProcessedBlock\<close> is \<^verbatim>\<open>null\<close> until \<^verbatim>\<open>start\<close> assigns it,
  which it does before either loop runs; the model starts from that assignment.
  \<open>marketContracts\<close> is the \<^verbatim>\<open>Map\<close> of watched addresses (key and value are the same
  address) in insertion order. \<open>errorLog\<close> records the errors that the
  \<^verbatim>\<open>catch\<close> blocks log.
\<close>

record indexer =
  isRunning :: bool
  lastProcessedBlock :: int
  marketContracts :: "address list"
  idb :: db
  errorLog :: "error list"

definition watch_set :: "address \<Rightarrow> address list \<Rightarrow> address list" where
  "watch_set a ws = (if a \<in> set ws then ws else ws @ [a])"

subsection \<open>Store operations the indexer calls\<close>

definition event_key :: "event_row \<Rightarrow> string \<times> int" where
  "event_key r = (e_transactionHash r, e_logIndex r)"

text \<open>
  Modelled from the spec: \<^verbatim>\<open>MarketEvent.create\<close> (database/models/MarketEvent.js is not
  available) as the store's \<^verbatim>\<open>appendEvent\<close>, which "fails silently/no-ops on
  duplicate key"; the key is the table's \<^verbatim>\<open>UNIQUE(transaction_hash, log_index)\<close>.
\<close>

definition MarketEvent_create :: "event_row \<Rightarrow> db \<Rightarrow> db" where
  "MarketEvent_create r d =
     (if event_key r \<in> set (map event_key (market_events d)) then d
      else d\<lparr>market_events := market_events d @ [r]\<rparr>)"

text \<open>
  \<^verbatim>\<open>User.upsert\<close> and \<^verbatim>\<open>User.updateStats\<close>: database/models/User.js is not
  available, and the spec describes no user table. The store keeps the calls that are made
  on the user model, with their arguments, in the order they are made. What a call does to
  the \<^verbatim>\<open>users\<close> table is a parameter of the statements about that table (see
  \<open>users_table\<close>).
\<close>

definition User_upsert :: "address \<Rightarrow> db \<Rightarrow> db" where
  "User_upsert a d = d\<lparr>user_calls := user_calls d @ [UserUpsert a]\<rparr>"

definition User_updateStats :: "address \<Rightarrow> int \<Rightarrow> int \<Rightarrow> db \<Rightarrow> db" where
  "User_updateStats a trades volume d =
     d\<lparr>user_calls := user_calls d @ [UserUpdateStats a trades volume]\<rparr>"

text \<open>
  Modelled from the spec: \<^verbatim>\<open>Market.upsert\<close>, \<^verbatim>\<open>Market.updateVolume\<close> and
  \<^verbatim>\<open>MarketHistory.create\<close> (their model files are not available) as the store's
  \<^verbatim>\<open>upsertEntity\<close>, \<^verbatim>\<open>updateEntityTotals\<close> and \<^verbatim>\<open>appendSnapshot\<close>. A new entity gets
  the column defaults of the table; an existing one keeps its status ("status transitions
  only active to resolved"), deadline, totals and metadata.
\<close>

definition Market_upsert ::
  "address \<Rightarrow> string \<Rightarrow> string list \<Rightarrow> string option \<Rightarrow> db \<Rightarrow> db" where
  "Market_upsert mid q outs creator d =
     (case markets d mid of
        None \<Rightarrow>
          d\<lparr>markets := (markets d)(mid \<mapsto>
              \<lparr>marketId = mid, question = q, marketStatus = Active, resolutionTime = None,
               totalVolume = 0, totalLiquidity = 0, outcomeCount = length outs,
               outcomes = outs, creatorAddress = creator, metadata = None\<rparr>)\<rparr>
      | Some m \<Rightarrow>
          d\<lparr>markets := (markets d)(mid \<mapsto>
              m\<lparr>question := q, outcomeCount := length outs, outcomes := outs,
                creatorAddress := creator\<rparr>)\<rparr>)"

definition Market_updateVolume :: "address \<Rightarrow> int \<Rightarrow> int \<Rightarrow> db \<Rightarrow> db" where
  "Market_updateVolume mid volume liquidity d =
     (case markets d mid of
        None \<Rightarrow> d
      | Some m \<Rightarrow> d\<lparr>markets := (markets d)(mid \<mapsto> m\<lparr>totalVolume := volume,
                                                    totalLiquidity := liquidity\<rparr>)\<rparr>)"

definition MarketHistory_create :: "history_row \<Rightarrow> db \<Rightarrow> db" where
  "MarketHistory_create r d = d\<lparr>markets_history := markets_history d @ [r]\<rparr>"


subsection \<open>Handlers\<close>

text \<open>
  The snapshot reads. A failed read of one price gives \<open>0\<close> for that outcome, a failed
  read of a total gives \<open>0\<close>. Prices are kept as the integers the contract returns (the
  source divides them by \<^verbatim>\<open>1e18\<close> as floating-point numbers).
\<close>

definition fetchMarketPrices :: "chain \<Rightarrow> address \<Rightarrow> nat \<Rightarrow> int list" where
  "fetchMarketPrices ch mid n = map (\<lambda>i. num_or0 (getPrice ch mid i)) [0..<n]"

definition fetchMarketVolume :: "chain \<Rightarrow> address \<Rightarrow> int" where
  "fetchMarketVolume ch mid = num_or0 (readTotalVolume ch mid)"

definition fetchMarketLiquidity :: "chain \<Rightarrow> address \<Rightarrow> int" where
  "fetchMarketLiquidity ch mid = num_or0 (readTotalLiquidity ch mid)"

definition updateMarketSnapshot :: "chain \<Rightarrow> address \<Rightarrow> int \<Rightarrow> db \<Rightarrow> db" where
  "updateMarketSnapshot ch mid ts d =
     (case markets d mid of
        None \<Rightarrow> d
      | Some m \<Rightarrow>
          (let prices = fetchMarketPrices ch mid (outcomeCount m);
               volume = fetchMarketVolume ch mid;
               liquidity = fetchMarketLiquidity ch mid
           in Market_updateVolume mid volume liquidity
                (MarketHistory_create
                   \<lparr>h_marketId = mid, h_prices = prices, h_volume = volume,
                    h_liquidity = liquidity, h_timestamp = ts * 1000\<rparr> d)))"

definition block_error :: error where
  "block_error = Error ''getBlock failed''"

text \<open>
  \<^verbatim>\<open>handleMarketCreated\<close>. A log without a market address makes the insert into
  \<^verbatim>\<open>markets\<close> fail on its primary key; like a failed \<^verbatim>\<open>getBlock\<close> it is caught and
  logged, and the log is skipped.
\<close>

definition created_market :: "log \<Rightarrow> string option" where
  "created_market l = js_or (a_market (l_args l)) (a_marketAddress (l_args l))"

definition created_row_of :: "address \<Rightarrow> log \<Rightarrow> int \<Rightarrow> event_row" where
  "created_row_of mid l ts =
     \<lparr>e_marketId = mid, e_eventType = MarketCreated,
      e_userAddress = js_or (a_creator (l_args l)) (a_creatorAddress (l_args l)),
      e_outcomeId = None, e_shares = None, e_cost = None,
      e_blockNumber = l_blockNumber l, e_transactionHash = l_transactionHash l,
      e_logIndex = l_logIndex l, e_timestamp = ts * 1000\<rparr>"

definition storeMarketCreated :: "address \<Rightarrow> log \<Rightarrow> int \<Rightarrow> db \<Rightarrow> db" where
  "storeMarketCreated mid l ts d =
     MarketEvent_create (created_row_of mid l ts)
       (Market_upsert mid
          (case js_or (a_question (l_args l)) (Some []) of None \<Rightarrow> [] | Some t \<Rightarrow> t)
          (case a_outcomes (l_args l) of None \<Rightarrow> [] | Some os \<Rightarrow> os)
          (js_or (a_creator (l_args l)) (a_creatorAddress (l_args l))) d)"

definition handleMarketCreated :: "chain \<Rightarrow> log \<Rightarrow> indexer \<Rightarrow> indexer" where
  "handleMarketCreated ch l s =
     (case blockTimestamp ch (l_blockNumber l) of
        None \<Rightarrow> s\<lparr>errorLog := errorLog s @ [block_error]\<rparr>
      | Some ts \<Rightarrow>
          (case created_market l of
             None \<Rightarrow> s\<lparr>errorLog := errorLog s @ [Error ''null value in column id'']\<rparr>
           | Some mid \<Rightarrow>
               s\<lparr>idb := storeMarketCreated mid l ts (idb s),
                 marketContracts := watch_set mid (marketContracts s)\<rparr>))"

definition is_trade :: "event_name \<Rightarrow> bool" where
  "is_trade ev = (ev = SharesPurchased \<or> ev = SharesSold)"

text \<open>
  \<^verbatim>\<open>handleMarketEvent\<close>, block by block. The values read from the log:
  \<^verbatim>\<open>args.user || args.buyer || args.seller || args.provider\<close> and
  \<^verbatim>\<open>args.cost?.toString() || args.amount?.toString() || '0'\<close>.
\<close>

definition log_user :: "log \<Rightarrow> string option" where
  "log_user l =
     js_or (js_or (js_or (a_user (l_args l)) (a_buyer (l_args l))) (a_seller (l_args l)))
       (a_provider (l_args l))"

definition log_cost :: "log \<Rightarrow> int" where
  "log_cost l =
     (case a_cost (l_args l) of Some c \<Rightarrow> c | None \<Rightarrow> num_or0 (a_amount (l_args l)))"

text \<open>The row of the first \<^verbatim>\<open>MarketEvent.create\<close> ("Store event").\<close>

definition event_row_of :: "event_name \<Rightarrow> log \<Rightarrow> int \<Rightarrow> event_row" where
  "event_row_of eventType l ts =
     \<lparr>e_marketId = l_address l, e_eventType = eventType, e_userAddress = log_user l,
      e_outcomeId = a_outcome (l_args l), e_shares = Some (num_or0 (a_shares (l_args l))),
      e_cost = Some (log_cost l), e_blockNumber = l_blockNumber l,
      e_transactionHash = l_transactionHash l, e_logIndex = l_logIndex l,
      e_timestamp = ts * 1000\<rparr>"

text \<open>"Update user stats".\<close>

definition updateUserStats :: "event_name \<Rightarrow> log \<Rightarrow> db \<Rightarrow> db" where
  "updateUserStats eventType l d =
     (case log_user l of
        None \<Rightarrow> d
      | Some ua \<Rightarrow>
          if ua = [] then d
          else if is_trade eventType
               then User_updateStats ua 1 (log_cost l) (User_upsert ua d)
               else User_upsert ua d)"

text \<open>"Handle market resolution": the status update and the second insert for the log.\<close>

definition resolved_row_of :: "log \<Rightarrow> int \<Rightarrow> event_row" where
  "resolved_row_of l ts =
     \<lparr>e_marketId = l_address l, e_eventType = MarketResolved, e_userAddress = None,
      e_outcomeId = a_winningOutcome (l_args l), e_shares = None, e_cost = None,
      e_blockNumber = l_blockNumber l, e_transactionHash = l_transactionHash l,
      e_logIndex = l_logIndex l, e_timestamp = ts * 1000\<rparr>"

definition handleResolution :: "event_name \<Rightarrow> log \<Rightarrow> int \<Rightarrow> db \<Rightarrow> db" where
  "handleResolution eventType l ts d =
     (if eventType = MarketResolved
      then MarketEvent_create (resolved_row_of l ts)
             (Market_updateStatus (l_address l) Resolved d)
      else d)"

text \<open>The store after the body of the \<^verbatim>\<open>try\<close>, for a block whose timestamp is \<open>ts\<close>.\<close>

definition storeMarketEvent :: "chain \<Rightarrow> event_name \<Rightarrow> log \<Rightarrow> int \<Rightarrow> db \<Rightarrow> db" where
  "storeMarketEvent ch eventType l ts d =
     (let d1 = MarketEvent_create (event_row_of eventType l ts) d;
          d2 = updateUserStats eventType l d1;
          d3 = (if is_trade eventType then updateMarketSnapshot ch (l_address l) ts d2 else d2)
      in handleResolution eventType l ts d3)"

definition handleMarketEvent :: "chain \<Rightarrow> event_name \<Rightarrow> log \<Rightarrow> indexer \<Rightarrow> indexer" where
  "handleMarketEvent ch eventType l s =
     (case blockTimestamp ch (l_blockNumber l) of
        None \<Rightarrow> s\<lparr>errorLog := errorLog s @ [block_error]\<rparr>
      | Some ts \<Rightarrow> s\<lparr>idb := storeMarketEvent ch eventType l ts (idb s)\<rparr>)"

subsection \<open>Block ranges, backfill and polling\<close>

text \<open>
  \<^verbatim>\<open>indexMarketCreatedEvents\<close> and \<^verbatim>\<open>indexEventType\<close>: the logs of the query are
  handled in order. A query that throws is caught: the error is logged (for an event
  kind, unless its message includes \<^verbatim>\<open>not found\<close>) and no log of the range is handled.
\<close>

definition indexMarketCreatedEvents :: "config \<Rightarrow> chain \<Rightarrow> int \<Rightarrow> int \<Rightarrow> indexer \<Rightarrow> indexer" where
  "indexMarketCreatedEvents cfg ch fromBlock toBlock s =
     (case marketFactory cfg of
        None \<Rightarrow> s
      | Some factory \<Rightarrow>
          (case getContractLogs ch factory MarketCreated fromBlock toBlock of
             Inl e \<Rightarrow> s\<lparr>errorLog := errorLog s @ [e]\<rparr>
           | Inr logs \<Rightarrow> fold (handleMarketCreated ch) logs s))"

definition indexEventType ::
  "chain \<Rightarrow> address \<Rightarrow> event_name \<Rightarrow> int \<Rightarrow> int \<Rightarrow> indexer \<Rightarrow> indexer" where
  "indexEventType ch marketAddress ev fromBlock toBlock s =
     (case getContractLogs ch marketAddress ev fromBlock toBlock of
        Inl e \<Rightarrow>
          if msg_includes (message e) ''not found'' then s
          else s\<lparr>errorLog := errorLog s @ [e]\<rparr>
      | Inr logs \<Rightarrow> fold (handleMarketEvent ch ev) logs s)"

definition indexMarketEvents :: "chain \<Rightarrow> address \<Rightarrow> int \<Rightarrow> int \<Rightarrow> indexer \<Rightarrow> indexer" where
  "indexMarketEvents ch marketAddress fromBlock toBlock s =
     indexEventType ch marketAddress MarketResolved fromBlock toBlock
       (indexEventType ch marketAddress LiquidityAdded fromBlock toBlock
         (indexEventType ch marketAddress SharesSold fromBlock toBlock
           (indexEventType ch marketAddress SharesPurchased fromBlock toBlock s)))"

definition processBlockRange :: "config \<Rightarrow> chain \<Rightarrow> int \<Rightarrow> int \<Rightarrow> indexer \<Rightarrow> indexer" where
  "processBlockRange cfg ch fromBlock toBlock s =
     (let s1 = (if truthy (marketFactory cfg)
                then indexMarketCreatedEvents cfg ch fromBlock toBlock s else s)
      in fold (\<lambda>marketAddress. indexMarketEvents ch marketAddress fromBlock toBlock)
           (marketContracts s1) s1)"

text \<open>
  The batch loop of \<^verbatim>\<open>processHistoricalEvents\<close>, with fuel: \<open>None\<close> is a loop that has
  not ended within the fuel. The result lists the indexer after each batch, in order.
\<close>

fun backfillLoop ::
  "nat \<Rightarrow> config \<Rightarrow> chain \<Rightarrow> int \<Rightarrow> int \<Rightarrow> indexer \<Rightarrow> indexer list option" where
  "backfillLoop 0 cfg ch start toBlock s = None"
| "backfillLoop (Suc n) cfg ch start toBlock s =
     (if start \<le> toBlock then
        (let end = (if start + batchSize cfg > toBlock then toBlock
                    else start + batchSize cfg);
             s1 = (processBlockRange cfg ch start end s)\<lparr>lastProcessedBlock := end\<rparr>
         in case backfillLoop n cfg ch (start + batchSize cfg) toBlock s1 of
              None \<Rightarrow> None
            | Some tr \<Rightarrow> Some (s1 # tr))
      else Some [])"

text \<open>
  \<^verbatim>\<open>processHistoricalEvents\<close>: skipped without a factory address; a failing
  \<^verbatim>\<open>getBlockNumber\<close> is thrown on to \<^verbatim>\<open>start\<close>.
\<close>

definition processHistoricalEvents ::
  "nat \<Rightarrow> config \<Rightarrow> chain \<Rightarrow> indexer \<Rightarrow> (error + indexer list) option" where
  "processHistoricalEvents fuel cfg ch s =
     (if \<not> truthy (marketFactory cfg) then Some (Inr [])
      else case blockNumber ch of
             None \<Rightarrow> Some (Inl (Error ''getBlockNumber failed''))
           | Some currentBlock \<Rightarrow>
               map_option Inr
                 (backfillLoop fuel cfg ch (lastProcessedBlock s) currentBlock s))"

text \<open>
  The callback of \<^verbatim>\<open>startPolling\<close>. \<^verbatim>\<open>setInterval\<close> does not wait for an
  asynchronous callback, so a callback that is awaiting \<^verbatim>\<open>processBlockRange\<close> is still
  pending when the timer fires again. The callback is therefore taken in two parts.
  \<open>pollBegin\<close> goes from the answer of \<^verbatim>\<open>getBlockNumber\<close> to the call of
  \<^verbatim>\<open>processBlockRange\<close>: the head is compared with the cursor and \<^verbatim>\<open>fromBlock\<close> and
  \<^verbatim>\<open>toBlock\<close> are fixed. \<open>pollEnd\<close> is the rest: the range is processed and
  \<^verbatim>\<open>this.lastProcessedBlock = toBlock\<close> is assigned. The store writes of the range are
  applied together at that point; none of them touches the cursor.
\<close>

definition pollBegin :: "chain \<Rightarrow> indexer \<Rightarrow> (int \<times> int) option \<times> indexer" where
  "pollBegin ch s =
     (if \<not> isRunning s then (None, s)
      else case blockNumber ch of
             None \<Rightarrow> (None, s\<lparr>errorLog := errorLog s @ [Error ''getBlockNumber failed'']\<rparr>)
           | Some currentBlock \<Rightarrow>
               if currentBlock > lastProcessedBlock s
               then (Some (lastProcessedBlock s + 1, currentBlock), s)
               else (None, s))"

definition pollEnd :: "config \<Rightarrow> chain \<Rightarrow> int \<times> int \<Rightarrow> indexer \<Rightarrow> indexer" where
  "pollEnd cfg ch blocks s =
     (processBlockRange cfg ch (fst blocks) (snd blocks) s)\<lparr>lastProcessedBlock := snd blocks\<rparr>"

text \<open>
  What happens while the indexer polls: the timer fires and a callback gets the head of
  the chain as it is then, or the pending callback at a position (in the order in which
  they began) gets to its end. The state is the indexer with the callbacks that have
  begun and not ended, each with its chain view and its range.
\<close>

datatype poll_event = TimerFires chain | CallbackEnds nat

type_synonym poll_state = "indexer \<times> (chain \<times> int \<times> int) list"

fun poll_step :: "config \<Rightarrow> poll_event \<Rightarrow> poll_state \<Rightarrow> poll_state" where
  "poll_step cfg (TimerFires ch) (s, pending) =
     (case pollBegin ch s of
        (None, s1) \<Rightarrow> (s1, pending)
      | (Some blocks, s1) \<Rightarrow> (s1, pending @ [(ch, blocks)]))"
| "poll_step cfg (CallbackEnds i) (s, pending) =
     (if i < length pending
      then (pollEnd cfg (fst (pending ! i)) (snd (pending ! i)) s,
            take i pending @ drop (Suc i) pending)
      else (s, pending))"

text \<open>The states after each of a sequence of events, in order.\<close>

fun poll_run :: "config \<Rightarrow> poll_event list \<Rightarrow> poll_state \<Rightarrow> poll_state list" where
  "poll_run cfg [] st = []"
| "poll_run cfg (e # es) st = poll_step cfg e st # poll_run cfg es (poll_step cfg e st)"

text \<open>
  A schedule in which no two callbacks overlap: each callback ends before the timer
  fires again.
\<close>

definition one_at_a_time :: "chain list \<Rightarrow> poll_event list" where
  "one_at_a_time chs = concat (map (\<lambda>ch. [TimerFires ch, CallbackEnds 0]) chs)"

text \<open>
  A run after \<^verbatim>\<open>start\<close> has assigned the cursor: the backfill against the chain \<open>ch\<close>,
  which \<^verbatim>\<open>start\<close> awaits, then the events of the polling. When the backfill throws,
  \<^verbatim>\<open>start\<close> fails and the timer is not set. The result lists the indexer after each
  batch and each event.
\<close>

definition indexerRun ::
  "nat \<Rightarrow> config \<Rightarrow> chain \<Rightarrow> poll_event list \<Rightarrow> indexer \<Rightarrow> indexer list option" where
  "indexerRun fuel cfg ch events s =
     (case processHistoricalEvents fuel cfg ch s of
        None \<Rightarrow> None
      | Some (Inl e) \<Rightarrow> Some []
      | Some (Inr tr) \<Rightarrow> Some (tr @ map fst (poll_run cfg events (last (s # tr), []))))"

subsection \<open>Notions used to state properties of the ingestion\<close>

text \<open>The key under which a log's rows are stored.\<close>

definition log_key :: "log \<Rightarrow> string \<times> int" where
  "log_key l = (l_transactionHash l, l_logIndex l)"

text \<open>
  On a real chain a contract emits no event before the block of the factory log that
  announces it. \<open>events_follow_creation\<close> says so of the logs of a chain view: every log
  of an address is at or after every factory log that creates that address.
\<close>

definition events_follow_creation :: "config \<Rightarrow> chain \<Rightarrow> bool" where
  "events_follow_creation cfg ch =
     list_all (\<lambda>l. list_all (\<lambda>c.
        if marketFactory cfg = Some (l_address c) \<and> l_eventName c = MarketCreated
           \<and> created_market c = Some (l_address l) \<and> l_eventName l \<noteq> MarketCreated
        then l_blockNumber c \<le> l_blockNumber l else True) (chainLogs ch)) (chainLogs ch)"



text \<open>
  A factory log that registers a market when it is handled: it comes from the configured
  factory, its block can be read and it names the market.
\<close>

definition announces :: "config \<Rightarrow> chain \<Rightarrow> log \<Rightarrow> bool" where
  "announces cfg ch l =
     (truthy (marketFactory cfg) \<and> marketFactory cfg = Some (l_address l)
      \<and> l_eventName l = MarketCreated \<and> blockTimestamp ch (l_blockNumber l) \<noteq> None
      \<and> created_market l \<noteq> None)"

text \<open>
  The logs that a query hands to the handlers (none when it fails), and whether the query
  for an address and event over a range is answered.
\<close>

definition gotLogs :: "chain \<Rightarrow> address \<Rightarrow> event_name \<Rightarrow> int \<Rightarrow> int \<Rightarrow> log list" where
  "gotLogs ch addr ev a b =
     (case getContractLogs ch addr ev a b of Inl e \<Rightarrow> [] | Inr logs \<Rightarrow> logs)"

definition answered :: "chain \<Rightarrow> address \<Rightarrow> event_name \<Rightarrow> int \<Rightarrow> int \<Rightarrow> bool" where
  "answered ch addr ev a b = (logsError ch addr ev a b = None)"

text \<open>
  The markets announced in a block range, and the logs that a pass over the range stores
  when it watches the addresses \<open>W\<close>: the logs of the range whose block can be read and
  whose query (for their address and event kind, over the range) is answered, when they
  are announcements or events of a watched address.
\<close>

definition created_ids :: "config \<Rightarrow> chain \<Rightarrow> int \<Rightarrow> int \<Rightarrow> address set" where
  "created_ids cfg ch a b =
     {mid. \<exists>l \<in> set (chainLogs ch). announces cfg ch l
             \<and> answered ch (l_address l) MarketCreated a b \<and> a \<le> l_blockNumber l
             \<and> l_blockNumber l \<le> b \<and> created_market l = Some mid}"

definition ingested :: "config \<Rightarrow> chain \<Rightarrow> address set \<Rightarrow> int \<Rightarrow> int \<Rightarrow> log set" where
  "ingested cfg ch W a b =
     {l \<in> set (chainLogs ch). a \<le> l_blockNumber l \<and> l_blockNumber l \<le> b
        \<and> blockTimestamp ch (l_blockNumber l) \<noteq> None
        \<and> answered ch (l_address l) (l_eventName l) a b
        \<and> (announces cfg ch l \<or> (l_address l \<in> W \<and> l_eventName l \<noteq> MarketCreated))}"


text \<open>
  The logs that the second half of \<^verbatim>\<open>processBlockRange\<close> handles for the watched
  addresses \<open>ms\<close>, with the event kind each is handled as, in the order of the loops.
\<close>

definition market_logs :: "chain \<Rightarrow> address list \<Rightarrow> int \<Rightarrow> int \<Rightarrow> (event_name \<times> log) list" where
  "market_logs ch ms a b =
     concat (map (\<lambda>m. concat (map (\<lambda>ev. map (Pair ev) (gotLogs ch m ev a b))
                                   [SharesPurchased, SharesSold, LiquidityAdded, MarketResolved]))
                 ms)"


text \<open>
  The \<^verbatim>\<open>users\<close> table after a sequence of calls on the user model, from an empty
  table. An upsert with only an address inserts a row of column defaults when the address
  has none. \<open>upd\<close> stands for what \<^verbatim>\<open>User.updateStats\<close> makes of a row and the two
  values it is given. Two candidates: the values are stored (\<open>storeStats\<close>), or they are
  added to the totals of the row (\<open>addStats\<close>).
\<close>

fun user_call_effect ::
  "(user_row \<Rightarrow> int \<Rightarrow> int \<Rightarrow> user_row) \<Rightarrow> user_call \<Rightarrow> (address \<rightharpoonup> user_row)
     \<Rightarrow> (address \<rightharpoonup> user_row)" where
  "user_call_effect upd (UserUpsert a) us =
     (case us a of
        None \<Rightarrow> us(a \<mapsto> \<lparr>u_username = None, u_totalTrades = 0, u_totalVolume = 0\<rparr>)
      | Some _ \<Rightarrow> us)"
| "user_call_effect upd (UserUpdateStats a trades volume) us =
     (case us a of None \<Rightarrow> us | Some u \<Rightarrow> us(a \<mapsto> upd u trades volume))"

definition users_table ::
  "(user_row \<Rightarrow> int \<Rightarrow> int \<Rightarrow> user_row) \<Rightarrow> user_call list \<Rightarrow> (address \<rightharpoonup> user_row)" where
  "users_table upd calls = fold (user_call_effect upd) calls Map.empty"

definition storeStats :: "user_row \<Rightarrow> int \<Rightarrow> int \<Rightarrow> user_row" where
  "storeStats u trades volume = u\<lparr>u_totalTrades := trades, u_totalVolume := volume\<rparr>"

definition addStats :: "user_row \<Rightarrow> int \<Rightarrow> int \<Rightarrow> user_row" where
  "addStats u trades volume =
     u\<lparr>u_totalTrades := u_totalTrades u + trades, u_totalVolume := u_totalVolume u + volume\<rparr>"

text \<open>
  The trade count and volume of a user as \<^verbatim>\<open>getUserProfile\<close>
  (controllers/userController.js) computes them, from the event table:
  \<^verbatim>\<open>COUNT(*)\<close> and \<^verbatim>\<open>SUM(cost)\<close> over the user's purchases and sales.
\<close>

definition userTradeStats :: "db \<Rightarrow> address \<Rightarrow> nat \<times> int" where
  "userTradeStats d a =
     (let rows = filter (\<lambda>r. e_userAddress r = Some a
                              \<and> (e_eventType r = SharesPurchased \<or> e_eventType r = SharesSold))
                   (market_events d)
      in (length rows, sum_list (map (\<lambda>r. num_or0 (e_cost r)) rows)))"


section \<open>The two writers of a market's status\<close>

text \<open>
  The scheduler and the indexer work on one store. A step is one
  \<^verbatim>\<open>resolveMarketIfReady\<close> of the scheduler, on a market row it read at some earlier
  time (so the row can be stale), or one \<^verbatim>\<open>handleMarketEvent\<close> of the indexer.
\<close>

datatype writer_step =
    SchedulerResolve env "address \<Rightarrow> int option \<Rightarrow> error + string" market
  | IndexerEvent chain event_name log

fun apply_step :: "writer_step \<Rightarrow> sched \<times> indexer \<Rightarrow> sched \<times> indexer" where
  "apply_step (SchedulerResolve ev wc mk) (sc, ix) =
     (let sc1 = snd (resolveMarketIfReady ev wc mk (sc\<lparr>store := idb ix\<rparr>))
      in (sc1, ix\<lparr>idb := store sc1\<rparr>))"
| "apply_step (IndexerEvent ch evn l) (sc, ix) =
     (let ix1 = handleMarketEvent ch evn l ix
      in (sc\<lparr>store := idb ix1\<rparr>, ix1))"

text \<open>The states after each step of a sequence, in order.\<close>

fun run_steps :: "writer_step list \<Rightarrow> sched \<times> indexer \<Rightarrow> (sched \<times> indexer) list" where
  "run_steps [] st = []"
| "run_steps (w # ws) st = apply_step w st # run_steps ws (apply_step w st)"

definition status_in :: "db \<Rightarrow> address \<Rightarrow> market_status option" where
  "status_in d mid = map_option marketStatus (markets d mid)"

definition status_of :: "address \<Rightarrow> sched \<times> indexer \<Rightarrow> market_status option" where
  "status_of mid st = status_in (idb (snd st)) mid"

text \<open>The number of steps of a status history that go from active to resolved.\<close>

fun transitions :: "market_status option list \<Rightarrow> nat" where
  "transitions (a # b # rest) =
     (if a = Some Active \<and> b = Some Resolved then 1 else 0) + transitions (b # rest)"
| "transitions _ = 0"


section \<open>Example inputs\<close>

definition ex_finished :: provider_data where
  "ex_finished = \<lparr>HomeTeamScore = Some 3, HomeScore = None, AwayTeamScore = Some 1,
                   AwayScore = None, IsClosed = True, Status = Some ''Final'',
                   GameStatus = None, DateTime = None\<rparr>"

text \<open>
  A game that the away team wins, and a drawn game whose scores are in the second field
  of each pair and which is marked final by \<^verbatim>\<open>GameStatus\<close>.
\<close>

definition ex_away_win :: provider_data where
  "ex_away_win = \<lparr>HomeTeamScore = Some 1, HomeScore = None, AwayTeamScore = Some 3,
                   AwayScore = None, IsClosed = True, Status = None,
                   GameStatus = None, DateTime = None\<rparr>"

definition ex_draw :: provider_data where
  "ex_draw = \<lparr>HomeTeamScore = Some 0, HomeScore = Some 2, AwayTeamScore = None,
               AwayScore = Some 2, IsClosed = False, Status = None,
               GameStatus = Some ''Final'', DateTime = None\<rparr>"

definition ex_env :: env where
  "ex_env = \<lparr>httpGet = (\<lambda>_. HttpOk (Obj ex_finished)), dateNow = 2000000,
              isoNow = ''2026-01-01T00:00:00.000Z''\<rparr>"

definition ex_metadata :: "string \<Rightarrow> string \<Rightarrow> market_metadata" where
  "ex_metadata sp mode = \<lparr>gameId = Some ''g1'', sport = Some sp, outcomeType = Some mode,
                          spread = None, threshold = Some 4\<rparr>"

definition ex_market :: "string \<Rightarrow> string \<Rightarrow> market" where
  "ex_market sp mode =
     \<lparr>marketId = ''0xM1'', question = ''Who wins?'', marketStatus = Active,
      resolutionTime = Some 1000000, totalVolume = 0, totalLiquidity = 0, outcomeCount = 3,
      outcomes = [''Home'', ''Away'', ''Draw''], creatorAddress = None,
      metadata = Some (ex_metadata sp mode)\<rparr>"

definition ex_db :: "string \<Rightarrow> string \<Rightarrow> db" where
  "ex_db sp mode = \<lparr>markets = [''0xM1'' \<mapsto> ex_market sp mode], market_events = [],
                    user_calls = [], markets_history = [], external_data = []\<rparr>"

definition ex_sched :: "string \<Rightarrow> string \<Rightarrow> sched" where
  "ex_sched sp mode =
     \<lparr>service = \<lparr>rateLimit = 100, requestCount = 0, requestWindowStart = 1999000\<rparr>,
      store = ex_db sp mode, writeCalls = []\<rparr>"

definition ex_wc_ok :: "address \<Rightarrow> int option \<Rightarrow> error + string" where
  "ex_wc_ok a w = Inr ''0xtx''"

definition ex_wc_already :: "address \<Rightarrow> int option \<Rightarrow> error + string" where
  "ex_wc_already a w = Inl (Error ''execution reverted: Market already resolved'')"

text \<open>A store whose market has the game's id as its own id, so that the cache accepts the row.\<close>

definition ex_db_g1 :: db where
  "ex_db_g1 = \<lparr>markets = [''g1'' \<mapsto> (ex_market ''nfl'' ''winner'')\<lparr>marketId := ''g1''\<rparr>],
               market_events = [], user_calls = [], markets_history = [],
               external_data = []\<rparr>"

definition ex_service :: sports_service where
  "ex_service = \<lparr>rateLimit = 100, requestCount = 0, requestWindowStart = 1999000\<rparr>"

text \<open>A small chain: a market is created, traded twice and resolved.\<close>

definition no_args :: log_args where
  "no_args = \<lparr>a_market = None, a_marketAddress = None, a_creator = None,
               a_creatorAddress = None, a_question = None, a_outcomes = None, a_user = None,
               a_buyer = None, a_seller = None, a_provider = None, a_outcome = None,
               a_shares = None, a_cost = None, a_amount = None, a_winningOutcome = None\<rparr>"

definition ex_log_created :: log where
  "ex_log_created =
     \<lparr>l_address = ''0xF'', l_eventName = MarketCreated,
      l_args = no_args\<lparr>a_market := Some ''0xM1'', a_creator := Some ''0xC'',
                        a_question := Some ''Who wins?'',
                        a_outcomes := Some [''Home'', ''Away'', ''Draw'']\<rparr>,
      l_blockNumber = 100, l_transactionHash = ''0xa1'', l_logIndex = 0\<rparr>"

definition ex_log_buy :: log where
  "ex_log_buy =
     \<lparr>l_address = ''0xM1'', l_eventName = SharesPurchased,
      l_args = no_args\<lparr>a_buyer := Some ''0xU1'', a_outcome := Some 0, a_shares := Some 10,
                        a_cost := Some 5\<rparr>,
      l_blockNumber = 105, l_transactionHash = ''0xa2'', l_logIndex = 0\<rparr>"

definition ex_log_sell :: log where
  "ex_log_sell =
     \<lparr>l_address = ''0xM1'', l_eventName = SharesSold,
      l_args = no_args\<lparr>a_seller := Some ''0xU1'', a_outcome := Some 0, a_shares := Some 4,
                        a_cost := Some 7\<rparr>,
      l_blockNumber = 110, l_transactionHash = ''0xa3'', l_logIndex = 1\<rparr>"

definition ex_log_resolved :: log where
  "ex_log_resolved =
     \<lparr>l_address = ''0xM1'', l_eventName = MarketResolved,
      l_args = no_args\<lparr>a_winningOutcome := Some 0\<rparr>,
      l_blockNumber = 120, l_transactionHash = ''0xa4'', l_logIndex = 0\<rparr>"

definition ex_chain :: chain where
  "ex_chain =
     \<lparr>chainLogs = [ex_log_created, ex_log_buy, ex_log_sell, ex_log_resolved],
      logsError = (\<lambda>_ _ _ _. None), blockNumber = Some 120, blockTimestamp = (\<lambda>b. Some (1700000000 + b)),
      getPrice = (\<lambda>_ _. Some 5), readTotalVolume = (\<lambda>_. Some 12),
      readTotalLiquidity = (\<lambda>_. Some 100)\<rparr>"


definition ex_config :: "int \<Rightarrow> config" where
  "ex_config width = \<lparr>marketFactory = Some ''0xF'', batchSize = width\<rparr>"

definition empty_db :: db where
  "empty_db = \<lparr>markets = Map.empty, market_events = [], user_calls = [],
                markets_history = [], external_data = []\<rparr>"

definition ex_indexer :: indexer where
  "ex_indexer = \<lparr>isRunning = True, lastProcessedBlock = 100, marketContracts = [],
                  idb = empty_db, errorLog = []\<rparr>"

text \<open>A state of both writers in which the example market is already resolved.\<close>

definition ex_resolved_db :: db where
  "ex_resolved_db = Market_updateStatus ''0xM1'' Resolved (ex_db ''nfl'' ''winner'')"

definition ex_resolved_state :: "sched \<times> indexer" where
  "ex_resolved_state =
     ((ex_sched ''nfl'' ''winner'')\<lparr>store := ex_resolved_db\<rparr>,
      ex_indexer\<lparr>idb := ex_resolved_db\<rparr>)"

definition ex_steps :: "writer_step list" where
  "ex_steps = [IndexerEvent ex_chain MarketResolved ex_log_resolved,
               SchedulerResolve ex_env ex_wc_already (ex_market ''nfl'' ''winner'')]"

text \<open>
  The scenario of a resolution: the scheduler resolves the market, the indexer then sees
  the \<open>MarketResolved\<close> log, and a scheduler tick that still holds the active row tries
  again and is told by the chain that the market is already resolved.
\<close>

definition ex_race :: "writer_step list" where
  "ex_race = [SchedulerResolve ex_env ex_wc_ok (ex_market ''nfl'' ''winner''),
              IndexerEvent ex_chain MarketResolved ex_log_resolved,
              SchedulerResolve ex_env ex_wc_already (ex_market ''nfl'' ''winner'')]"

definition ex_active_state :: "sched \<times> indexer" where
  "ex_active_state =
     (ex_sched ''nfl'' ''winner'', ex_indexer\<lparr>idb := ex_db ''nfl'' ''winner''\<rparr>)"

section \<open>The rate limiter\<close>

lemma checkRateLimit_in_window:
  assumes "t - requestWindowStart sv \<le> windowMs"
  shows "checkRateLimit t sv =
           (if requestCount sv \<ge> rateLimit sv then (Inl rate_limited, sv)
            else (Inr (), sv\<lparr>requestCount := requestCount sv + 1\<rparr>))"
  using assms by (simp add: checkRateLimit_def)

lemma makeRequest_in_window:
  assumes "t - requestWindowStart sv \<le> windowMs"
  shows "makeRequest h t ep sv =
           (if requestCount sv \<ge> rateLimit sv then (Inl rate_limited, sv)
            else (httpResult (h ep), sv\<lparr>requestCount := requestCount sv + 1\<rparr>))"
  using assms by (simp add: makeRequest_def checkRateLimit_in_window)

text \<open>
  Requests made while no more than the window has passed since its start: the first
  ones are answered by the provider until the count reaches the limit, the others are
  rejected, and the window start stays.
\<close>

lemma makeRequests_in_window:
  assumes "list_all (\<lambda>t. t - requestWindowStart sv \<le> windowMs) ts"
  shows "fst (makeRequests h ts ep sv) =
           map (\<lambda>i. if requestCount sv + i < rateLimit sv then httpResult (h ep)
                    else Inl rate_limited) [0..<length ts]
         \<and> requestWindowStart (snd (makeRequests h ts ep sv)) = requestWindowStart sv
         \<and> rateLimit (snd (makeRequests h ts ep sv)) = rateLimit sv"
  using assms
proof (induction ts arbitrary: sv)
  case Nil
  then show ?case by simp
next
  case (Cons t ts)
  have inw: "t - requestWindowStart sv \<le> windowMs" using Cons.prems by simp
  have rest: "list_all (\<lambda>t. t - requestWindowStart sv \<le> windowMs) ts" using Cons.prems by simp
  have upt: "[0..<length (t # ts)] = 0 # map Suc [0..<length ts]"
    by (simp add: upt_conv_Cons map_Suc_upt del: upt_Suc)
  show ?case
  proof (cases "requestCount sv \<ge> rateLimit sv")
    case True
    then have step: "makeRequest h t ep sv = (Inl rate_limited, sv)"
      using inw by (simp add: makeRequest_in_window)
    from Cons.IH [OF rest] True show ?thesis
      unfolding upt by (auto simp: step comp_def split: prod.splits)
  next
    case False
    let ?sv1 = "sv\<lparr>requestCount := requestCount sv + 1\<rparr>"
    have step: "makeRequest h t ep sv = (httpResult (h ep), ?sv1)"
      using inw False by (simp add: makeRequest_in_window)
    have rest1: "list_all (\<lambda>t. t - requestWindowStart ?sv1 \<le> windowMs) ts" using rest by simp
    from Cons.IH [OF rest1] False show ?thesis
      unfolding upt by (auto simp: step comp_def split: prod.splits)
  qed
qed

lemma count_upto: "length (filter (\<lambda>i. i < n) [0..<k]) = min n k"
  by (induction k) auto

text \<open>
  The boundary of the window: a request made exactly \<open>windowMs\<close> after the window start
  still belongs to the window, since the reset tests \<open>now - start > windowMs\<close>.
\<close>

lemma checkRateLimit_boundary:
  "requestCount sv \<ge> rateLimit sv \<Longrightarrow>
   checkRateLimit (requestWindowStart sv + windowMs) sv = (Inl rate_limited, sv)"
  by (simp add: checkRateLimit_def)

text \<open>
  Claim C5. In a fresh window (count \<open>0\<close>) of a provider that answers, of the requests
  made while at most \<open>windowMs\<close> has passed since the window start, the first
  \<open>rateLimit\<close> return the provider's body and every later one returns at once the
  rate-limit error, so that exactly \<open>min rateLimit (length ts)\<close> succeed. A request made
  more than \<open>windowMs\<close> after the window start resets the count: it succeeds, it is
  request number \<open>1\<close> of a window that starts at its own time.
\<close>

theorem rate_limit_window:
  assumes fresh: "requestCount sv = 0"
    and inside: "list_all (\<lambda>t. t - requestWindowStart sv \<le> windowMs) ts"
    and answer: "h ep = HttpOk body"
    and later: "windowMs < t' - requestWindowStart sv"
    and budget: "0 < rateLimit sv"
  shows "fst (makeRequests h ts ep sv) =
           map (\<lambda>i. if i < rateLimit sv then Inr body else Inl rate_limited) [0..<length ts]
         \<and> length (filter (\<lambda>r. r = Inr body) (fst (makeRequests h ts ep sv)))
             = min (rateLimit sv) (length ts)
         \<and> fst (makeRequest h t' ep (snd (makeRequests h ts ep sv))) = Inr body
         \<and> requestCount (snd (makeRequest h t' ep (snd (makeRequests h ts ep sv)))) = 1
         \<and> requestWindowStart (snd (makeRequest h t' ep (snd (makeRequests h ts ep sv)))) = t'"
proof -
  note w = makeRequests_in_window [OF inside, of h ep]
  have res: "fst (makeRequests h ts ep sv) =
           map (\<lambda>i. if i < rateLimit sv then Inr body else Inl rate_limited) [0..<length ts]"
    using w fresh answer by (simp add: httpResult_def)
  have cnt: "length (filter (\<lambda>r. r = Inr body) (fst (makeRequests h ts ep sv)))
             = min (rateLimit sv) (length ts)"
    unfolding res by (simp add: filter_map comp_def count_upto [symmetric] cong: filter_cong)
  let ?sv' = "snd (makeRequests h ts ep sv)"
  have "windowMs < t' - requestWindowStart ?sv'" "0 < rateLimit ?sv'"
    using w later budget by simp_all
  then have after: "makeRequest h t' ep ?sv' =
      (Inr body, ?sv'\<lparr>requestCount := 1, requestWindowStart := t'\<rparr>)"
    using answer by (simp add: makeRequest_def checkRateLimit_def httpResult_def)
  show ?thesis using res cnt after by simp
qed

theorem rate_limit_window_witness:
  "fst (makeRequests (\<lambda>_. HttpOk (Arr [])) [0, 10, 900000] ''/nfl''
          \<lparr>rateLimit = 2, requestCount = 0, requestWindowStart = 0\<rparr>)
     = [Inr (Arr []), Inr (Arr []), Inl rate_limited]
   \<and> fst (makeRequest (\<lambda>_. HttpOk (Arr [])) 900001 ''/nfl''
            (snd (makeRequests (\<lambda>_. HttpOk (Arr [])) [0, 10, 900000] ''/nfl''
                    \<lparr>rateLimit = 2, requestCount = 0, requestWindowStart = 0\<rparr>)))
     = Inr (Arr [])"
  using rate_limit_window [where sv = "\<lparr>rateLimit = 2, requestCount = 0, requestWindowStart = 0\<rparr>"
      and ts = "[0, 10, 900000]" and h = "\<lambda>_. HttpOk (Arr [])" and ep = "''/nfl''"
      and body = "Arr []" and t' = 900001]
  by (simp add: windowMs_def upt_conv_Cons)


section \<open>Evaluation of the example inputs\<close>

lemma lower_nfl: "toLowerCase ''nfl'' = ''nfl''"
  by code_simp

lemma lower_cricket: "toLowerCase ''cricket'' = ''cricket''"
  by code_simp

lemma incl_already:
  "msg_includes ''execution reverted: Market already resolved'' ''already resolved''"
  by code_simp

text \<open>A lookup that misses the cache, for a supported sport, within the budget, answered.\<close>

lemma getGameOutcome_nfl:
  assumes "toLowerCase sp = ''nfl''"
    and "getCachedData (dateNow ev) gid ''game_outcome'' d = None"
    and "dateNow ev - requestWindowStart sv \<le> windowMs"
    and "requestCount sv < rateLimit sv"
    and "httpGet ev (''/nfl/scores/json/Scores/'' @ gid) = HttpOk body"
  shows "getGameOutcome ev gid sp (sv, d) =
           (Inr (extractGameOutcome (isoNow ev) body sp),
            sv\<lparr>requestCount := requestCount sv + 1\<rparr>,
            cacheData (dateNow ev) gid ''game_outcome''
              (extractGameOutcome (isoNow ev) body sp) 1440 d)"
  using assms
  by (simp add: getGameOutcome_def fetchOutcome_def makeRequest_in_window httpResult_def Let_def)

lemma resolveMarket_of_outcome:
  assumes "metadata mk = Some md" and "gameId md = Some gid" and "gid \<noteq> []"
    and "sport md = Some sp" and "sp \<noteq> []"
    and "getGameOutcome ev gid sp st = (Inr oc, st1)" and "status oc = Finished"
  shows "resolveMarket ev mk st =
           (Inr \<lparr>resolved = True, reason = None, winningOutcome = mapOutcome md oc,
                 game = Some oc\<rparr>, st1)"
  using assms by (simp add: resolveMarket_def Let_def)

lemma ex_outcome:
  "extractGameOutcome ''2026-01-01T00:00:00.000Z'' (Obj ex_finished) sp =
     \<lparr>status = Finished, homeScore = 3, awayScore = 1, winner = Some Home,
      finishedAt = Some ''2026-01-01T00:00:00.000Z''\<rparr>"
  by (simp add: extractGameOutcome_def ex_finished_def Let_def num_or_def num_or0_def js_or_def
      truthy_def)

lemma ex_getGameOutcome:
  "getGameOutcome ex_env ''g1'' ''nfl'' (service (ex_sched ''nfl'' m), store (ex_sched ''nfl'' m)) =
     (Inr \<lparr>status = Finished, homeScore = 3, awayScore = 1, winner = Some Home,
           finishedAt = Some ''2026-01-01T00:00:00.000Z''\<rparr>,
      \<lparr>rateLimit = 100, requestCount = 1, requestWindowStart = 1999000\<rparr>,
      ex_db ''nfl'' m)"
proof -
  have "getGameOutcome ex_env ''g1'' ''nfl''
          (\<lparr>rateLimit = 100, requestCount = 0, requestWindowStart = 1999000\<rparr>, ex_db ''nfl'' m) =
     (Inr (extractGameOutcome (isoNow ex_env) (Obj ex_finished) ''nfl''),
      \<lparr>rateLimit = 100, requestCount = 0, requestWindowStart = 1999000\<rparr>\<lparr>requestCount := 0 + 1\<rparr>,
      cacheData (dateNow ex_env) ''g1'' ''game_outcome''
         (extractGameOutcome (isoNow ex_env) (Obj ex_finished) ''nfl'') 1440 (ex_db ''nfl'' m))"
    by (rule getGameOutcome_nfl [THEN trans])
       (simp_all add: lower_nfl getCachedData_def ex_env_def ex_db_def windowMs_def)
  then show ?thesis
    by (simp add: ex_sched_def ex_env_def ex_outcome cacheData_def ex_db_def)
qed

lemma ex_resolveMarket:
  "resolveMarket ex_env (ex_market ''nfl'' m)
       (service (ex_sched ''nfl'' m), store (ex_sched ''nfl'' m)) =
     (Inr \<lparr>resolved = True, reason = None,
           winningOutcome = mapOutcome (ex_metadata ''nfl'' m)
              \<lparr>status = Finished, homeScore = 3, awayScore = 1, winner = Some Home,
               finishedAt = Some ''2026-01-01T00:00:00.000Z''\<rparr>,
           game = Some \<lparr>status = Finished, homeScore = 3, awayScore = 1, winner = Some Home,
                        finishedAt = Some ''2026-01-01T00:00:00.000Z''\<rparr>\<rparr>,
      \<lparr>rateLimit = 100, requestCount = 1, requestWindowStart = 1999000\<rparr>,
      ex_db ''nfl'' m)"
  by (rule resolveMarket_of_outcome [where gid = "''g1''" and sp = "''nfl''"])
     (simp_all add: ex_getGameOutcome, simp_all add: ex_market_def ex_metadata_def)


section \<open>Outcome-to-index mapping\<close>

text \<open>
  Claim C3, as stated, fails: in \<open>over_under\<close> mode the test is \<open>total > threshold\<close>,
  so a finished game of 3 to 1 against the threshold 4 resolves to index \<open>1\<close>, not \<open>0\<close>.
\<close>

theorem over_under_at_threshold_counterexample:
  "threshold (ex_metadata ''nfl'' ''over_under'') = Some (3 + 1)
   \<and> fst (resolveMarket ex_env (ex_market ''nfl'' ''over_under'')
            (service (ex_sched ''nfl'' ''over_under''), store (ex_sched ''nfl'' ''over_under'')))
     = Inr \<lparr>resolved = True, reason = None, winningOutcome = Some 1,
            game = Some \<lparr>status = Finished, homeScore = 3, awayScore = 1, winner = Some Home,
                         finishedAt = Some ''2026-01-01T00:00:00.000Z''\<rparr>\<rparr>"
  by (simp add: ex_resolveMarket mapOutcome_def) (simp add: ex_metadata_def num_or0_def)

text \<open>
  Claim C3, amended. In \<open>over_under\<close> mode a resolution carries index \<open>0\<close> when the
  summed score is strictly greater than the threshold (\<open>0\<close> when none is configured) and
  index \<open>1\<close> when the sum is equal to or below it.
\<close>

theorem over_under_strict:
  assumes "metadata mk = Some md" and "outcomeType md = Some ''over_under''"
    and "resolveMarket ev mk st = (Inr res, st')" and "resolved res"
  shows "\<exists>oc. game res = Some oc
           \<and> winningOutcome res =
               Some (if homeScore oc + awayScore oc > num_or0 (threshold md) then 0 else 1)"
  using assms
  by (auto simp: resolveMarket_def mapOutcome_def Let_def
           split: option.splits if_splits prod.splits sum.splits)

theorem over_under_strict_witness:
  "\<exists>oc. game \<lparr>resolved = True, reason = None, winningOutcome = Some 1,
            game = Some \<lparr>status = Finished, homeScore = 3, awayScore = 1, winner = Some Home,
                         finishedAt = Some ''2026-01-01T00:00:00.000Z''\<rparr>\<rparr> = Some oc
        \<and> Some (1::int) = Some (if homeScore oc + awayScore oc > 4 then 0 else 1)"
  using over_under_strict [where mk = "ex_market ''nfl'' ''over_under''"
      and md = "ex_metadata ''nfl'' ''over_under''" and ev = ex_env
      and st = "(service (ex_sched ''nfl'' ''over_under''), store (ex_sched ''nfl'' ''over_under''))"
      and res = "\<lparr>resolved = True, reason = None, winningOutcome = Some 1,
            game = Some \<lparr>status = Finished, homeScore = 3, awayScore = 1, winner = Some Home,
                         finishedAt = Some ''2026-01-01T00:00:00.000Z''\<rparr>\<rparr>"
      and st' = "(\<lparr>rateLimit = 100, requestCount = 1, requestWindowStart = 1999000\<rparr>,
                  ex_db ''nfl'' ''over_under'')"]
  by (simp add: ex_resolveMarket mapOutcome_def)

text \<open>
  Claim C6. Take the payload of a finished game (the object, or the first element of an
  array) and the scores \<open>h\<close> and \<open>a\<close> that it reports for the home and the away team.
  The extracted outcome has these scores, its winner is the home team when \<open>h > a\<close>, the
  away team when \<open>a > h\<close> and the draw when they are equal, and \<open>winner\<close> mode maps
  the three cases to the indices \<open>0\<close>, \<open>1\<close> and \<open>2\<close>. The index is a function of the
  mode and the payload: evaluating it again on the same inputs gives the same index.
\<close>

theorem winner_mode_mapping:
  assumes mode: "outcomeType md = Some ''winner''"
    and first: "data = Obj d \<or> data = Arr (d # rest)"
    and fin: "IsClosed d \<or> Status d = Some ''Final'' \<or> GameStatus d = Some ''Final''"
    and h: "h = reported_score (HomeTeamScore d) (HomeScore d)"
    and a: "a = reported_score (AwayTeamScore d) (AwayScore d)"
  shows "mapOutcome md (extractGameOutcome nowStr data sp)
           = Some (if h > a then 0 else if a > h then 1 else 2)
         \<and> status (extractGameOutcome nowStr data sp) = Finished
         \<and> homeScore (extractGameOutcome nowStr data sp) = h
         \<and> awayScore (extractGameOutcome nowStr data sp) = a
         \<and> winner (extractGameOutcome nowStr data sp)
             = Some (if h > a then Home else if a > h then Away else Draw)"
proof -
  have hs: "num_or0 (num_or x y) = reported_score x y" for x y
    by (cases x; cases y) (simp_all add: num_or_def num_or0_def)
  from first show ?thesis
  proof
    assume "data = Obj d"
    then show ?thesis
      using mode fin h a by (auto simp: mapOutcome_def extractGameOutcome_def Let_def hs)
  next
    assume "data = Arr (d # rest)"
    then show ?thesis
      using mode fin h a by (auto simp: mapOutcome_def extractGameOutcome_def Let_def hs)
  qed
qed

theorem winner_mode_mapping_witness:
  "mapOutcome (ex_metadata ''nfl'' ''winner'')
      (extractGameOutcome ''2026-01-01T00:00:00.000Z'' (Obj ex_finished) ''nfl'') = Some 0
   \<and> mapOutcome (ex_metadata ''nfl'' ''winner'')
      (extractGameOutcome ''2026-01-01T00:00:00.000Z'' (Arr [ex_away_win, ex_finished]) ''nfl'')
       = Some 1
   \<and> mapOutcome (ex_metadata ''nfl'' ''winner'')
      (extractGameOutcome ''2026-01-01T00:00:00.000Z'' (Obj ex_draw) ''nfl'') = Some 2
   \<and> winner (extractGameOutcome ''2026-01-01T00:00:00.000Z'' (Obj ex_draw) ''nfl'') = Some Draw"
proof -
  have m: "outcomeType (ex_metadata ''nfl'' ''winner'') = Some ''winner''"
    by (simp add: ex_metadata_def)
  have f1: "IsClosed ex_finished \<or> Status ex_finished = Some ''Final''
            \<or> GameStatus ex_finished = Some ''Final''"
    by (simp add: ex_finished_def)
  have h1: "3 = reported_score (HomeTeamScore ex_finished) (HomeScore ex_finished)"
    and a1: "1 = reported_score (AwayTeamScore ex_finished) (AwayScore ex_finished)"
    by (simp_all add: ex_finished_def)
  have f2: "IsClosed ex_away_win \<or> Status ex_away_win = Some ''Final''
            \<or> GameStatus ex_away_win = Some ''Final''"
    by (simp add: ex_away_win_def)
  have h2: "1 = reported_score (HomeTeamScore ex_away_win) (HomeScore ex_away_win)"
    and a2: "3 = reported_score (AwayTeamScore ex_away_win) (AwayScore ex_away_win)"
    by (simp_all add: ex_away_win_def)
  have f3: "IsClosed ex_draw \<or> Status ex_draw = Some ''Final''
            \<or> GameStatus ex_draw = Some ''Final''"
    by (simp add: ex_draw_def)
  have h3: "2 = reported_score (HomeTeamScore ex_draw) (HomeScore ex_draw)"
    and a3: "2 = reported_score (AwayTeamScore ex_draw) (AwayScore ex_draw)"
    by (simp_all add: ex_draw_def)
  have d1: "Obj ex_finished = Obj ex_finished \<or> Obj ex_finished = Arr (ex_finished # [])"
    and d2: "Arr [ex_away_win, ex_finished] = Obj ex_away_win
             \<or> Arr [ex_away_win, ex_finished] = Arr (ex_away_win # [ex_finished])"
    and d3: "Obj ex_draw = Obj ex_draw \<or> Obj ex_draw = Arr (ex_draw # [])"
    by simp_all
  note home = winner_mode_mapping [where nowStr = "''2026-01-01T00:00:00.000Z''"
      and sp = "''nfl''", OF m d1 f1 h1 a1]
  note away = winner_mode_mapping [where nowStr = "''2026-01-01T00:00:00.000Z''"
      and sp = "''nfl''", OF m d2 f2 h2 a2]
  note draw = winner_mode_mapping [where nowStr = "''2026-01-01T00:00:00.000Z''"
      and sp = "''nfl''", OF m d3 f3 h3 a3]
  from home away draw show ?thesis by simp
qed


section \<open>The scheduler\<close>

lemma cacheData_markets: "markets (cacheData t gid ty oc ttl d) = markets d"
  by (simp add: cacheData_def)

lemma getGameOutcome_markets:
  "getGameOutcome ev gid sp (sv, d) = (r, sv1, d1) \<Longrightarrow> markets d1 = markets d"
  by (auto simp: getGameOutcome_def fetchOutcome_def Let_def cacheData_markets
           split: option.splits if_splits prod.splits sum.splits)

lemma resolveMarket_markets:
  "resolveMarket ev mk (sv, d) = (r, sv1, d1) \<Longrightarrow> markets d1 = markets d"
  by (auto simp: resolveMarket_def Let_def dest: getGameOutcome_markets
           split: option.splits if_splits prod.splits sum.splits)

lemma updateStatus_status:
  "markets d mid = Some row \<Longrightarrow>
   map_option marketStatus (markets (Market_updateStatus mid st d) mid) = Some st"
  by (simp add: Market_updateStatus_def)

text \<open>
  Claim C7. When the chain answers the settlement transaction with an error whose message
  contains \<^verbatim>\<open>already resolved\<close> or \<^verbatim>\<open>MarketResolved\<close>, \<^verbatim>\<open>callResolveMarket\<close> returns
  \<^verbatim>\<open>null\<close> instead of throwing, \<^verbatim>\<open>resolveMarketIfReady\<close> returns normally, and the
  market's row in the store has status resolved afterwards.
\<close>

theorem already_resolved_absorbed:
  assumes fails: "wc (marketId mk) (winningOutcome res) = Inl e"
    and already: "msg_includes (message e) ''already resolved''
                  \<or> msg_includes (message e) ''MarketResolved''"
    and active: "marketStatus mk = Active"
    and due: "resolutionTime mk = Some t" "t \<le> dateNow ev"
    and outcome: "resolveMarket ev mk (service s, store s) = (Inr res, sv1, d1)"
    and ready: "resolved res"
    and row: "markets (store s) (marketId mk) = Some row"
  shows "fst (callResolveMarket wc (marketId mk) (winningOutcome res) s) = Inr None
         \<and> fst (resolveMarketIfReady ev wc mk s) = Inr (DidResolve (winningOutcome res))
         \<and> map_option marketStatus
              (markets (store (snd (resolveMarketIfReady ev wc mk s))) (marketId mk))
             = Some Resolved"
proof -
  have m1: "markets d1 (marketId mk) = Some row"
    using resolveMarket_markets [OF outcome] row by simp
  have call: "\<And>s'. callResolveMarket wc (marketId mk) (winningOutcome res) s' =
      (Inr None, s'\<lparr>writeCalls := writeCalls s' @ [(marketId mk, winningOutcome res)]\<rparr>)"
    using fails already by (auto simp: callResolveMarket_def Let_def)
  show ?thesis
    using active due outcome ready
    by (simp add: call resolveMarketIfReady_def Let_def updateStatus_status [OF m1])
qed

theorem already_resolved_absorbed_witness:
  "fst (resolveMarketIfReady ex_env ex_wc_already (ex_market ''nfl'' ''winner'')
          (ex_sched ''nfl'' ''winner'')) = Inr (DidResolve (Some 0))
   \<and> map_option marketStatus
        (markets (store (snd (resolveMarketIfReady ex_env ex_wc_already (ex_market ''nfl'' ''winner'')
          (ex_sched ''nfl'' ''winner'')))) ''0xM1'') = Some Resolved"
  using already_resolved_absorbed [where wc = ex_wc_already and mk = "ex_market ''nfl'' ''winner''"
      and ev = ex_env and s = "ex_sched ''nfl'' ''winner''" and t = 1000000
      and e = "Error ''execution reverted: Market already resolved''"
      and row = "ex_market ''nfl'' ''winner''", OF _ _ _ _ _ ex_resolveMarket]
  by (simp add: incl_already mapOutcome_def ex_wc_already_def)
     (simp add: ex_market_def ex_metadata_def ex_env_def ex_sched_def ex_db_def)

lemma mapOutcome_unrecognized:
  assumes "outcomeType md \<noteq> Some ''winner''" and "outcomeType md \<noteq> Some ''spread''"
    and "outcomeType md \<noteq> Some ''over_under''"
  shows "mapOutcome md oc = None"
  using assms by (simp add: mapOutcome_def)

text \<open>
  Claim C4 does not hold of the code. For a market that is due, whose game is finished
  and whose mode is none of \<open>winner\<close>, \<open>spread\<close>, \<open>over_under\<close>, \<^verbatim>\<open>resolveMarket\<close>
  answers \<open>resolved = True\<close> with a \<^verbatim>\<open>null\<close> winning outcome; the scheduler does not
  take its skip branch, it calls \<^verbatim>\<open>writeContract\<close> with that \<^verbatim>\<open>null\<close> and, when the
  transaction is accepted, marks the market resolved.
\<close>

theorem unrecognized_mode_not_skipped:
  assumes md: "metadata mk = Some md" "gameId md = Some gid" "gid \<noteq> []"
      "sport md = Some sp" "sp \<noteq> []"
    and mode: "outcomeType md \<noteq> Some ''winner''" "outcomeType md \<noteq> Some ''spread''"
      "outcomeType md \<noteq> Some ''over_under''"
    and active: "marketStatus mk = Active"
    and due: "resolutionTime mk = Some t" "t \<le> dateNow ev"
    and lookup: "getGameOutcome ev gid sp (service s, store s) = (Inr oc, sv1, d1)"
    and finished: "status oc = Finished"
    and accepted: "wc (marketId mk) None = Inr receipt"
  shows "fst (resolveMarket ev mk (service s, store s)) =
           Inr \<lparr>resolved = True, reason = None, winningOutcome = None, game = Some oc\<rparr>
         \<and> fst (resolveMarketIfReady ev wc mk s) = Inr (DidResolve None)
         \<and> writeCalls (snd (resolveMarketIfReady ev wc mk s)) = writeCalls s @ [(marketId mk, None)]
         \<and> store (snd (resolveMarketIfReady ev wc mk s)) = Market_updateStatus (marketId mk) Resolved d1"
proof -
  have res: "resolveMarket ev mk (service s, store s) =
      (Inr \<lparr>resolved = True, reason = None, winningOutcome = None, game = Some oc\<rparr>, sv1, d1)"
    using resolveMarket_of_outcome [OF md lookup finished] mapOutcome_unrecognized [OF mode]
    by simp
  show ?thesis
    using active due accepted
    by (simp add: res resolveMarketIfReady_def callResolveMarket_def Let_def)
qed

theorem unrecognized_mode_not_skipped_witness:
  "fst (checkAndResolveMarkets ex_env ex_wc_ok [ex_market ''nfl'' ''moneyline'']
          (ex_sched ''nfl'' ''moneyline'')) = [(''0xM1'', Inr (DidResolve None))]
   \<and> writeCalls (snd (checkAndResolveMarkets ex_env ex_wc_ok [ex_market ''nfl'' ''moneyline'']
          (ex_sched ''nfl'' ''moneyline''))) = [(''0xM1'', None)]
   \<and> map_option marketStatus (markets (store (snd (checkAndResolveMarkets ex_env ex_wc_ok
          [ex_market ''nfl'' ''moneyline''] (ex_sched ''nfl'' ''moneyline'')))) ''0xM1'')
       = Some Resolved"
proof -
  have md: "metadata (ex_market ''nfl'' ''moneyline'') = Some (ex_metadata ''nfl'' ''moneyline'')"
      "gameId (ex_metadata ''nfl'' ''moneyline'') = Some ''g1''" "''g1'' \<noteq> []"
      "sport (ex_metadata ''nfl'' ''moneyline'') = Some ''nfl''" "''nfl'' \<noteq> []"
    by (simp_all add: ex_market_def ex_metadata_def)
  have mode: "outcomeType (ex_metadata ''nfl'' ''moneyline'') \<noteq> Some ''winner''"
      "outcomeType (ex_metadata ''nfl'' ''moneyline'') \<noteq> Some ''spread''"
      "outcomeType (ex_metadata ''nfl'' ''moneyline'') \<noteq> Some ''over_under''"
    by (simp_all add: ex_metadata_def)
  have rest: "marketStatus (ex_market ''nfl'' ''moneyline'') = Active"
      "resolutionTime (ex_market ''nfl'' ''moneyline'') = Some 1000000"
      "1000000 \<le> dateNow ex_env"
      "status \<lparr>status = Finished, homeScore = 3, awayScore = 1, winner = Some Home,
           finishedAt = Some ''2026-01-01T00:00:00.000Z''\<rparr> = Finished"
      "ex_wc_ok (marketId (ex_market ''nfl'' ''moneyline'')) None = Inr ''0xtx''"
    by (simp_all add: ex_market_def ex_env_def ex_wc_ok_def)
  note th = unrecognized_mode_not_skipped [where s = "ex_sched ''nfl'' ''moneyline''"
      and wc = ex_wc_ok, OF md mode rest(1-3) ex_getGameOutcome [of "''moneyline''"] rest(4-5)]
  have mid: "marketId (ex_market ''nfl'' ''moneyline'') = ''0xM1''"
    by (simp add: ex_market_def)
  show ?thesis
    using th
    by (simp add: case_prod_unfold mid ex_sched_def)
       (simp add: Market_updateStatus_def ex_db_def)
qed


section \<open>Unsupported sports\<close>

lemma ex_lookup_g1:
  "getGameOutcome ex_env ''g1'' ''nfl'' (ex_service, ex_db_g1) =
     (Inr \<lparr>status = Finished, homeScore = 3, awayScore = 1, winner = Some Home,
           finishedAt = Some ''2026-01-01T00:00:00.000Z''\<rparr>,
      ex_service\<lparr>requestCount := 1\<rparr>,
      ex_db_g1\<lparr>external_data :=
        [\<lparr>c_market_id = ''g1'', c_data_type = ''game_outcome'',
          c_data = \<lparr>status = Finished, homeScore = 3, awayScore = 1, winner = Some Home,
                    finishedAt = Some ''2026-01-01T00:00:00.000Z''\<rparr>,
          c_expires_at = 88400000, c_created_at = 2000000\<rparr>]\<rparr>)"
proof -
  have "getGameOutcome ex_env ''g1'' ''nfl'' (ex_service, ex_db_g1) =
     (Inr (extractGameOutcome (isoNow ex_env) (Obj ex_finished) ''nfl''),
      ex_service\<lparr>requestCount := requestCount ex_service + 1\<rparr>,
      cacheData (dateNow ex_env) ''g1'' ''game_outcome''
         (extractGameOutcome (isoNow ex_env) (Obj ex_finished) ''nfl'') 1440 ex_db_g1)"
    by (rule getGameOutcome_nfl)
       (simp_all add: lower_nfl getCachedData_def ex_env_def ex_db_g1_def ex_service_def windowMs_def)
  then show ?thesis
    by (simp add: ex_env_def ex_outcome cacheData_def ex_db_g1_def ex_service_def)
qed

text \<open>
  Claim C10, as stated, fails when the cache holds an unexpired outcome for the game id:
  the cache is read before the sport is looked at. Here the row was written by an
  earlier lookup of the same game under \<open>nfl\<close>.
\<close>

theorem unsupported_sport_cached_counterexample:
  "toLowerCase ''cricket'' \<noteq> ''nfl'' \<and> toLowerCase ''cricket'' \<noteq> ''nba''
   \<and> toLowerCase ''cricket'' \<noteq> ''mlb''
   \<and> fst (getGameOutcome ex_env ''g1'' ''cricket''
            (snd (getGameOutcome ex_env ''g1'' ''nfl'' (ex_service, ex_db_g1))))
     = Inr \<lparr>status = Finished, homeScore = 3, awayScore = 1, winner = Some Home,
            finishedAt = Some ''2026-01-01T00:00:00.000Z''\<rparr>"
  unfolding ex_lookup_g1
  by (simp add: lower_cricket getGameOutcome_def getCachedData_def ex_env_def)

text \<open>
  Claim C10, amended. When the cache holds no unexpired outcome for the game id, a lookup
  for a sport whose lower-case form is none of \<open>nfl\<close>, \<open>nba\<close>, \<open>mlb\<close> throws
  \<^verbatim>\<open>Unsupported sport: <sport>\<close> and changes nothing. Through the resolution path, for
  a due, active market with that sport, \<^verbatim>\<open>resolveMarketIfReady\<close> throws the same error
  (it is no skip), and \<^verbatim>\<open>checkAndResolveMarkets\<close> records it for that market and goes
  on with the remaining markets from the unchanged state.
\<close>

theorem unsupported_sport_throws:
  assumes miss: "getCachedData (dateNow ev) gid ''game_outcome'' (store s) = None"
    and other: "toLowerCase sp \<noteq> ''nfl''" "toLowerCase sp \<noteq> ''nba''"
      "toLowerCase sp \<noteq> ''mlb''"
    and md: "metadata mk = Some md" "gameId md = Some gid" "gid \<noteq> []"
      "sport md = Some sp" "sp \<noteq> []"
    and active: "marketStatus mk = Active"
    and due: "resolutionTime mk = Some t" "t \<le> dateNow ev"
  shows "getGameOutcome ev gid sp (service s, store s) =
           (Inl (Error (''Unsupported sport: '' @ sp)), service s, store s)
         \<and> resolveMarketIfReady ev wc mk s = (Inl (Error (''Unsupported sport: '' @ sp)), s)
         \<and> checkAndResolveMarkets ev wc (mk # mks) s =
             ((marketId mk, Inl (Error (''Unsupported sport: '' @ sp)))
                # fst (checkAndResolveMarkets ev wc mks s),
              snd (checkAndResolveMarkets ev wc mks s))"
proof -
  have g: "getGameOutcome ev gid sp (service s, store s) =
           (Inl (Error (''Unsupported sport: '' @ sp)), service s, store s)"
    using miss other by (simp add: getGameOutcome_def)
  have r: "resolveMarket ev mk (service s, store s) =
           (Inl (Error (''Unsupported sport: '' @ sp)), service s, store s)"
    using md g by (simp add: resolveMarket_def Let_def)
  have i: "resolveMarketIfReady ev wc mk s = (Inl (Error (''Unsupported sport: '' @ sp)), s)"
    using active due r by (simp add: resolveMarketIfReady_def)
  show ?thesis using g i by (simp add: case_prod_unfold)
qed

theorem unsupported_sport_throws_witness:
  "checkAndResolveMarkets ex_env ex_wc_ok
       [ex_market ''cricket'' ''winner'', ex_market ''nfl'' ''winner'']
       (ex_sched ''cricket'' ''winner'') =
     ((''0xM1'', Inl (Error ''Unsupported sport: cricket''))
        # fst (checkAndResolveMarkets ex_env ex_wc_ok [ex_market ''nfl'' ''winner'']
                 (ex_sched ''cricket'' ''winner'')),
      snd (checkAndResolveMarkets ex_env ex_wc_ok [ex_market ''nfl'' ''winner'']
                 (ex_sched ''cricket'' ''winner'')))"
proof -
  have miss: "getCachedData (dateNow ex_env) ''g1'' ''game_outcome''
                (store (ex_sched ''cricket'' ''winner'')) = None"
    by (simp add: getCachedData_def ex_sched_def ex_db_def)
  have other: "toLowerCase ''cricket'' \<noteq> ''nfl''" "toLowerCase ''cricket'' \<noteq> ''nba''"
      "toLowerCase ''cricket'' \<noteq> ''mlb''"
    by (simp_all add: lower_cricket)
  have md: "metadata (ex_market ''cricket'' ''winner'') = Some (ex_metadata ''cricket'' ''winner'')"
      "gameId (ex_metadata ''cricket'' ''winner'') = Some ''g1''" "''g1'' \<noteq> []"
      "sport (ex_metadata ''cricket'' ''winner'') = Some ''cricket''" "''cricket'' \<noteq> []"
    by (simp_all add: ex_market_def ex_metadata_def)
  have rest: "marketStatus (ex_market ''cricket'' ''winner'') = Active"
      "resolutionTime (ex_market ''cricket'' ''winner'') = Some 1000000"
      "1000000 \<le> dateNow ex_env"
    by (simp_all add: ex_market_def ex_env_def)
  note th = unsupported_sport_throws [where wc = ex_wc_ok
      and mks = "[ex_market ''nfl'' ''winner'']", OF miss other md rest]
  have mid: "marketId (ex_market ''cricket'' ''winner'') = ''0xM1''"
    by (simp add: ex_market_def)
  show ?thesis
    using th [unfolded mid, THEN conjunct2, THEN conjunct2] by (simp only: append_Cons append_Nil)
qed


section \<open>The store under the two writers\<close>

subsection \<open>Frame properties of the store operations\<close>

lemma MarketEvent_create_frame [simp]:
  "markets (MarketEvent_create r d) = markets d"
  "user_calls (MarketEvent_create r d) = user_calls d"
  by (simp_all add: MarketEvent_create_def)

lemma User_upsert_frame [simp]:
  "markets (User_upsert a d) = markets d"
  "market_events (User_upsert a d) = market_events d"
  by (simp_all add: User_upsert_def split: option.splits)

lemma User_updateStats_frame [simp]:
  "markets (User_updateStats a t v d) = markets d"
  "market_events (User_updateStats a t v d) = market_events d"
  by (simp_all add: User_updateStats_def split: option.splits)

lemma Market_upsert_frame [simp]:
  "user_calls (Market_upsert m q os c d) = user_calls d"
  "market_events (Market_upsert m q os c d) = market_events d"
  by (simp_all add: Market_upsert_def split: option.splits)

lemma Market_updateVolume_frame [simp]:
  "user_calls (Market_updateVolume m v q d) = user_calls d"
  "market_events (Market_updateVolume m v q d) = market_events d"
  by (simp_all add: Market_updateVolume_def split: option.splits)

lemma Market_updateStatus_frame [simp]:
  "user_calls (Market_updateStatus m st d) = user_calls d"
  "market_events (Market_updateStatus m st d) = market_events d"
  by (simp_all add: Market_updateStatus_def split: option.splits)

lemma MarketHistory_create_frame [simp]:
  "markets (MarketHistory_create r d) = markets d"
  "user_calls (MarketHistory_create r d) = user_calls d"
  "market_events (MarketHistory_create r d) = market_events d"
  by (simp_all add: MarketHistory_create_def)

lemma updateMarketSnapshot_frame [simp]:
  "user_calls (updateMarketSnapshot ch m ts d) = user_calls d"
  "market_events (updateMarketSnapshot ch m ts d) = market_events d"
  by (simp_all add: updateMarketSnapshot_def Let_def split: option.splits)

lemma updateUserStats_frame [simp]:
  "markets (updateUserStats ev l d) = markets d"
  "market_events (updateUserStats ev l d) = market_events d"
  by (simp_all add: updateUserStats_def split: option.splits)

lemma handleResolution_frame [simp]:
  "user_calls (handleResolution ev l ts d) = user_calls d"
  by (simp add: handleResolution_def)

subsection \<open>What each store operation does to the status column\<close>

lemma status_in_None: "status_in d mid = None \<longleftrightarrow> markets d mid = None"
  by (simp add: status_in_def)

lemma status_in_cong: "markets d = markets d' \<Longrightarrow> status_in d mid = status_in d' mid"
  by (simp add: status_in_def)

lemma status_updateStatus:
  "status_in (Market_updateStatus m Resolved d) mid =
     (if m = mid \<and> status_in d mid \<noteq> None then Some Resolved else status_in d mid)"
  by (auto simp: Market_updateStatus_def status_in_def split: option.splits)

lemma status_updateVolume:
  "status_in (Market_updateVolume m v q d) mid = status_in d mid"
  by (auto simp: Market_updateVolume_def status_in_def split: option.splits)

lemma status_updateMarketSnapshot:
  "status_in (updateMarketSnapshot ch m ts d) mid = status_in d mid"
  by (simp add: updateMarketSnapshot_def Let_def status_updateVolume
      status_in_cong [of "MarketHistory_create _ _"] split: option.splits)

lemma status_handleResolution:
  "status_in (handleResolution ev l ts d) mid =
     (if ev = MarketResolved \<and> l_address l = mid \<and> status_in d mid \<noteq> None
      then Some Resolved else status_in d mid)"
  by (simp add: handleResolution_def status_updateStatus
      status_in_cong [of "MarketEvent_create _ _"])

lemma status_storeMarketEvent:
  "status_in (storeMarketEvent ch ev l ts d) mid =
     (if ev = MarketResolved \<and> l_address l = mid \<and> status_in d mid \<noteq> None
      then Some Resolved else status_in d mid)"
  by (simp add: storeMarketEvent_def Let_def status_handleResolution
      status_updateMarketSnapshot status_in_cong [of "updateUserStats _ _ _"]
      status_in_cong [of "MarketEvent_create _ _"])

lemma status_handleMarketEvent:
  "status_in (idb (handleMarketEvent ch ev l ix)) mid =
     (if blockTimestamp ch (l_blockNumber l) \<noteq> None \<and> ev = MarketResolved
         \<and> l_address l = mid \<and> status_in (idb ix) mid \<noteq> None
      then Some Resolved
      else status_in (idb ix) mid)"
  by (cases "blockTimestamp ch (l_blockNumber l)")
     (simp_all add: handleMarketEvent_def status_storeMarketEvent)

lemma status_resolveMarketIfReady:
  "status_in (store (snd (resolveMarketIfReady ev wc mk s))) mid = status_in (store s) mid
   \<or> (status_in (store s) mid \<noteq> None
      \<and> status_in (store (snd (resolveMarketIfReady ev wc mk s))) mid = Some Resolved)"
proof -
  obtain r sv1 d1 where res: "resolveMarket ev mk (service s, store s) = (r, sv1, d1)"
    by (cases "resolveMarket ev mk (service s, store s)") auto
  have m: "markets d1 = markets (store s)"
    using resolveMarket_markets [OF res] .
  show ?thesis
    by (auto simp: resolveMarketIfReady_def callResolveMarket_def Let_def res m
          status_updateStatus status_in_cong [OF m] split: sum.splits option.splits if_splits)
qed

lemma status_apply_step:
  "status_of mid (apply_step w st) = status_of mid st
   \<or> (status_of mid st \<noteq> None \<and> status_of mid (apply_step w st) = Some Resolved)"
proof (cases st)
  case (Pair sc ix)
  show ?thesis
  proof (cases w)
    case (SchedulerResolve ev wc mk)
    show ?thesis
      using status_resolveMarketIfReady [of ev wc mk "sc\<lparr>store := idb ix\<rparr>" mid]
      by (auto simp: Pair SchedulerResolve status_of_def Let_def)
  next
    case (IndexerEvent ch evn l)
    show ?thesis
      by (auto simp: Pair IndexerEvent status_of_def Let_def status_handleMarketEvent)
  qed
qed

lemma resolved_stays:
  "status_of mid st = Some Resolved \<Longrightarrow>
   list_all (\<lambda>s. status_of mid s = Some Resolved) (run_steps ws st)"
proof (induction ws arbitrary: st)
  case Nil
  then show ?case by simp
next
  case (Cons w ws)
  have "status_of mid (apply_step w st) = Some Resolved"
    using status_apply_step [of mid w st] Cons.prems by auto
  then show ?case using Cons.IH by simp
qed

lemma transitions_resolved:
  "list_all (\<lambda>a. a = Some Resolved) xs \<Longrightarrow> transitions (Some Resolved # xs) = 0"
  by (induction xs) auto

lemma transitions_run:
  "transitions (map (status_of mid) (st # run_steps ws st)) \<le> 1"
proof (induction ws arbitrary: st)
  case Nil
  then show ?case by simp
next
  case (Cons w ws)
  let ?st1 = "apply_step w st"
  consider (same) "status_of mid ?st1 = status_of mid st"
    | (res) "status_of mid st \<noteq> None" "status_of mid ?st1 = Some Resolved"
    using status_apply_step [of mid w st] by auto
  then show ?case
  proof cases
    case same
    then show ?thesis using Cons.IH [of ?st1] by auto
  next
    case res
    have "list_all (\<lambda>s. status_of mid s = Some Resolved) (run_steps ws ?st1)"
      using resolved_stays [OF res(2)] .
    then have "list_all (\<lambda>a. a = Some Resolved) (map (status_of mid) (run_steps ws ?st1))"
      by (simp add: list_all_iff)
    then have "transitions (Some Resolved # map (status_of mid) (run_steps ws ?st1)) = 0"
      by (rule transitions_resolved)
    then show ?thesis using res by simp
  qed
qed

lemma updateStatus_noop:
  "status_in d m = Some st \<Longrightarrow> Market_updateStatus m st d = d"
proof -
  assume a: "status_in d m = Some st"
  then obtain row where row: "markets d m = Some row" "marketStatus row = st"
    by (auto simp: status_in_def)
  then have "(markets d)(m \<mapsto> row\<lparr>marketStatus := st\<rparr>) = markets d"
    by (auto simp: fun_upd_idem_iff)
  then show ?thesis using row by (simp add: Market_updateStatus_def)
qed

lemma resolved_event_noop:
  assumes "status_in (idb ix) (l_address l) = Some Resolved"
  shows "markets (idb (handleMarketEvent ch MarketResolved l ix)) = markets (idb ix)"
proof (cases "blockTimestamp ch (l_blockNumber l)")
  case None
  then show ?thesis by (simp add: handleMarketEvent_def)
next
  case (Some ts)
  let ?d2 = "updateUserStats MarketResolved l
               (MarketEvent_create (event_row_of MarketResolved l ts) (idb ix))"
  have "status_in ?d2 (l_address l) = Some Resolved"
    using assms by (simp add: status_in_def)
  then have "Market_updateStatus (l_address l) Resolved ?d2 = ?d2"
    by (rule updateStatus_noop)
  then show ?thesis
    by (simp add: handleMarketEvent_def Some storeMarketEvent_def Let_def is_trade_def
        handleResolution_def)
qed

text \<open>
  Claim C2. Along any sequence of scheduler resolutions (on market rows that may be
  stale) and indexer events, in any order, the status of an entity goes from active to
  resolved at most once, and once it is resolved it stays resolved. When the indexer
  handles a \<open>MarketResolved\<close> log of an entity whose status is already resolved (and the
  block can be read), the \<^verbatim>\<open>markets\<close> table is unchanged and no error is logged.
\<close>

theorem resolved_at_most_once:
  "transitions (map (status_of mid) (st # run_steps ws st)) \<le> 1
   \<and> (status_of mid st = Some Resolved \<longrightarrow>
        list_all (\<lambda>s. status_of mid s = Some Resolved) (run_steps ws st))
   \<and> (status_in (idb ix) (l_address l) = Some Resolved
        \<and> blockTimestamp ch (l_blockNumber l) \<noteq> None \<longrightarrow>
        markets (idb (handleMarketEvent ch MarketResolved l ix)) = markets (idb ix)
        \<and> errorLog (handleMarketEvent ch MarketResolved l ix) = errorLog ix)"
proof -
  have "blockTimestamp ch (l_blockNumber l) \<noteq> None \<Longrightarrow>
        errorLog (handleMarketEvent ch MarketResolved l ix) = errorLog ix"
    by (auto simp: handleMarketEvent_def)
  then show ?thesis
    using transitions_run [of mid st ws] resolved_stays [of mid st ws]
      resolved_event_noop [of ix l ch]
    by blast
qed

theorem resolved_at_most_once_witness:
  "transitions (map (status_of ''0xM1'') (ex_resolved_state # run_steps ex_steps ex_resolved_state))
     \<le> 1
   \<and> status_of ''0xM1'' ex_resolved_state = Some Resolved
   \<and> list_all (\<lambda>s. status_of ''0xM1'' s = Some Resolved) (run_steps ex_steps ex_resolved_state)
   \<and> markets (idb (handleMarketEvent ex_chain MarketResolved ex_log_resolved
                     (snd ex_resolved_state))) = markets (idb (snd ex_resolved_state))"
proof -
  have a: "status_of ''0xM1'' ex_resolved_state = Some Resolved"
    by (simp add: status_of_def ex_resolved_state_def ex_resolved_db_def status_updateStatus)
       (simp add: status_in_def ex_db_def)
  have b: "status_in (idb (snd ex_resolved_state)) (l_address ex_log_resolved) = Some Resolved"
    using a by (simp add: status_of_def ex_log_resolved_def)
  have c: "blockTimestamp ex_chain (l_blockNumber ex_log_resolved) \<noteq> None"
    by (simp add: ex_chain_def)
  show ?thesis
    using resolved_at_most_once [of "''0xM1''" ex_resolved_state ex_steps "snd ex_resolved_state"
        ex_log_resolved ex_chain] a b c
    by simp
qed


text \<open>
  The scenario evaluated: the status is active, then resolved after the scheduler's step
  and in every later state; the settlement is submitted with index \<open>0\<close>, and the late
  scheduler step submits it once more and absorbs the answer.
\<close>

lemma ex_scenario:
  "map (status_of ''0xM1'') (ex_active_state # run_steps ex_race ex_active_state)
     = [Some Active, Some Resolved, Some Resolved, Some Resolved]
   \<and> map (\<lambda>st. writeCalls (fst st)) (run_steps ex_race ex_active_state)
     = [[(''0xM1'', Some 0)], [(''0xM1'', Some 0)], [(''0xM1'', Some 0), (''0xM1'', Some 0)]]
   \<and> transitions (map (status_of ''0xM1'') (ex_active_state # run_steps ex_race ex_active_state))
     = 1"
  by code_simp


section \<open>The indexer's cursor\<close>

subsection \<open>The handlers leave the cursor and the running flag alone\<close>

lemma handleMarketCreated_cursor [simp]:
  "lastProcessedBlock (handleMarketCreated ch l s) = lastProcessedBlock s"
  "isRunning (handleMarketCreated ch l s) = isRunning s"
  by (simp_all add: handleMarketCreated_def split: option.splits)

lemma handleMarketEvent_cursor [simp]:
  "lastProcessedBlock (handleMarketEvent ch ev l s) = lastProcessedBlock s"
  "isRunning (handleMarketEvent ch ev l s) = isRunning s"
  by (simp_all add: handleMarketEvent_def split: option.splits)

lemma fold_cursor:
  assumes "\<And>x s. lastProcessedBlock (f x s) = lastProcessedBlock s"
    and "\<And>x s. isRunning (f x s) = isRunning s"
  shows "lastProcessedBlock (fold f xs s) = lastProcessedBlock s
         \<and> isRunning (fold f xs s) = isRunning s"
  by (induction xs arbitrary: s) (simp_all add: assms)

lemma indexEventType_cursor [simp]:
  "lastProcessedBlock (indexEventType ch a ev fromBlock toBlock s) = lastProcessedBlock s"
  "isRunning (indexEventType ch a ev fromBlock toBlock s) = isRunning s"
  by (simp_all add: indexEventType_def fold_cursor split: sum.splits)

lemma indexMarketEvents_cursor [simp]:
  "lastProcessedBlock (indexMarketEvents ch a fromBlock toBlock s) = lastProcessedBlock s"
  "isRunning (indexMarketEvents ch a fromBlock toBlock s) = isRunning s"
  by (simp_all add: indexMarketEvents_def)

lemma processBlockRange_cursor [simp]:
  "lastProcessedBlock (processBlockRange cfg ch fromBlock toBlock s) = lastProcessedBlock s"
  "isRunning (processBlockRange cfg ch fromBlock toBlock s) = isRunning s"
  by (simp_all add: processBlockRange_def indexMarketCreatedEvents_def Let_def fold_cursor
      split: option.splits sum.splits)

subsection \<open>The backfill loop\<close>

lemma backfillLoop_terminates:
  assumes "0 < batchSize cfg"
  shows "nat (toBlock - start + 1) < n \<Longrightarrow> \<exists>tr. backfillLoop n cfg ch start toBlock s = Some tr"
proof (induction n arbitrary: start s)
  case 0
  then show ?case by simp
next
  case (Suc n)
  show ?case
  proof (cases "start \<le> toBlock")
    case False
    then show ?thesis by simp
  next
    case True
    let ?end = "if start + batchSize cfg > toBlock then toBlock else start + batchSize cfg"
    let ?s1 = "(processBlockRange cfg ch start ?end s)\<lparr>lastProcessedBlock := ?end\<rparr>"
    have "nat (toBlock - (start + batchSize cfg) + 1) < n"
      using Suc.prems True assms by linarith
    from Suc.IH [OF this, of ?s1] obtain tr where
      "backfillLoop n cfg ch (start + batchSize cfg) toBlock ?s1 = Some tr" by blast
    then show ?thesis using True by (simp add: Let_def)
  qed
qed

lemma backfillLoop_sorted:
  assumes "0 \<le> batchSize cfg"
  shows "backfillLoop n cfg ch start toBlock s = Some tr \<Longrightarrow> lastProcessedBlock s \<le> start
         \<Longrightarrow> sorted (map lastProcessedBlock (s # tr))"
proof (induction n arbitrary: start s tr)
  case 0
  then show ?case by simp
next
  case (Suc n)
  show ?case
  proof (cases "start \<le> toBlock")
    case False
    then show ?thesis using Suc.prems by simp
  next
    case True
    let ?end = "if start + batchSize cfg > toBlock then toBlock else start + batchSize cfg"
    let ?s1 = "(processBlockRange cfg ch start ?end s)\<lparr>lastProcessedBlock := ?end\<rparr>"
    from Suc.prems(1) True obtain tr' where
      tr': "backfillLoop n cfg ch (start + batchSize cfg) toBlock ?s1 = Some tr'"
        and tr: "tr = ?s1 # tr'"
      by (auto simp: Let_def split: option.splits)
    have le: "lastProcessedBlock ?s1 \<le> start + batchSize cfg"
      by simp
    have up: "lastProcessedBlock s \<le> lastProcessedBlock ?s1"
      using Suc.prems(2) True assms by simp
    have "sorted (map lastProcessedBlock (?s1 # tr'))"
      using Suc.IH [OF tr' le] .
    then show ?thesis
      using up unfolding tr by (auto simp del: sorted_wrt.simps simp add: sorted2)
  qed
qed

subsection \<open>Polling\<close>

lemma pollEnd_cursor [simp]:
  "lastProcessedBlock (pollEnd cfg ch blocks s) = snd blocks"
  "isRunning (pollEnd cfg ch blocks s) = isRunning s"
  by (simp_all add: pollEnd_def)

lemma pollBegin_cursor [simp]:
  "lastProcessedBlock (snd (pollBegin ch s)) = lastProcessedBlock s"
  "isRunning (snd (pollBegin ch s)) = isRunning s"
  by (simp_all add: pollBegin_def split: option.splits)

lemma pollBegin_range:
  "fst (pollBegin ch s) = Some blocks \<Longrightarrow> lastProcessedBlock s < snd blocks"
  by (auto simp: pollBegin_def split: option.splits if_splits)

text \<open>A callback that ends before the timer fires again leaves or raises the cursor.\<close>

lemma serial_tick:
  "snd (poll_step cfg (TimerFires ch) (s, [])) = [] \<or>
   (\<exists>blocks. snd (poll_step cfg (TimerFires ch) (s, [])) = [(ch, blocks)]
      \<and> lastProcessedBlock s < snd blocks)"
  "lastProcessedBlock (fst (poll_step cfg (TimerFires ch) (s, []))) = lastProcessedBlock s"
proof -
  obtain r s1 where b: "pollBegin ch s = (r, s1)" by (cases "pollBegin ch s")
  have c: "lastProcessedBlock s1 = lastProcessedBlock s"
    using pollBegin_cursor(1) [of ch s] b by simp
  show "snd (poll_step cfg (TimerFires ch) (s, [])) = [] \<or>
   (\<exists>blocks. snd (poll_step cfg (TimerFires ch) (s, [])) = [(ch, blocks)]
      \<and> lastProcessedBlock s < snd blocks)"
    using b pollBegin_range [of ch s] by (cases r) auto
  show "lastProcessedBlock (fst (poll_step cfg (TimerFires ch) (s, []))) = lastProcessedBlock s"
    using b c by (cases r) auto
qed

lemma serial_callback:
  "snd (poll_step cfg (CallbackEnds 0) (poll_step cfg (TimerFires ch) (s, []))) = []"
  "lastProcessedBlock s
     \<le> lastProcessedBlock (fst (poll_step cfg (CallbackEnds 0)
                                   (poll_step cfg (TimerFires ch) (s, []))))"
proof -
  obtain s1 p1 where st: "poll_step cfg (TimerFires ch) (s, []) = (s1, p1)"
    by (cases "poll_step cfg (TimerFires ch) (s, [])")
  have c: "lastProcessedBlock s1 = lastProcessedBlock s"
    using serial_tick(2) [of cfg ch s] st by simp
  from serial_tick(1) [of cfg ch s] st
  consider "p1 = []" | blocks where "p1 = [(ch, blocks)]" "lastProcessedBlock s < snd blocks"
    by auto
  then have "snd (poll_step cfg (CallbackEnds 0) (s1, p1)) = []
             \<and> lastProcessedBlock s \<le> lastProcessedBlock (fst (poll_step cfg (CallbackEnds 0) (s1, p1)))"
  proof cases
    case 1
    then show ?thesis using c by simp
  next
    case 2
    then show ?thesis by simp
  qed
  then show "snd (poll_step cfg (CallbackEnds 0) (poll_step cfg (TimerFires ch) (s, []))) = []"
    and "lastProcessedBlock s
     \<le> lastProcessedBlock (fst (poll_step cfg (CallbackEnds 0)
                                   (poll_step cfg (TimerFires ch) (s, []))))"
    unfolding st by simp_all
qed

lemma serial_polls_sorted:
  "sorted (map (\<lambda>st. lastProcessedBlock (fst st))
             ((s, []) # poll_run cfg (one_at_a_time chs) (s, [])))"
proof (induction chs arbitrary: s)
  case Nil
  then show ?case by (simp add: one_at_a_time_def)
next
  case (Cons ch chs)
  let ?st1 = "poll_step cfg (TimerFires ch) (s, [])"
  let ?st2 = "poll_step cfg (CallbackEnds 0) ?st1"
  obtain s2 where s2: "?st2 = (s2, [])"
    using serial_callback(1) [of cfg ch s] by (cases ?st2) auto
  have c1: "lastProcessedBlock (fst ?st1) = lastProcessedBlock s"
    by (rule serial_tick(2))
  have c2: "lastProcessedBlock s \<le> lastProcessedBlock s2"
    using serial_callback(2) [of s cfg ch] s2 by simp
  have run: "poll_run cfg (one_at_a_time (ch # chs)) (s, [])
             = ?st1 # (s2, []) # poll_run cfg (one_at_a_time chs) (s2, [])"
    using s2 by (simp add: one_at_a_time_def)
  have "sorted (map (\<lambda>st. lastProcessedBlock (fst st))
                 ((s2, []) # poll_run cfg (one_at_a_time chs) (s2, [])))"
    by (rule Cons.IH)
  then show ?case
    unfolding run using c1 c2 by (auto simp del: sorted_wrt.simps simp add: sorted2)
qed

text \<open>
  The backfill and a polling in which no two callbacks overlap: the run returns and the
  cursor never decreases.
\<close>

lemma cursor_monotone_serial:
  assumes width: "0 < batchSize cfg"
    and fuel: "\<forall>c. blockNumber ch = Some c \<longrightarrow> nat (c - lastProcessedBlock s + 1) < fuel"
  shows "\<exists>tr. processHistoricalEvents fuel cfg ch s = Some (Inr tr)
              \<and> sorted (map lastProcessedBlock (s # tr))
              \<and> sorted (map (\<lambda>st. lastProcessedBlock (fst st))
                           ((last (s # tr), []) # poll_run cfg (one_at_a_time chs)
                                                    (last (s # tr), [])))
          \<or> processHistoricalEvents fuel cfg ch s = Some (Inl (Error ''getBlockNumber failed''))"
proof (cases "truthy (marketFactory cfg)")
  case False
  then show ?thesis
    using serial_polls_sorted [of s cfg chs]
    by (simp add: processHistoricalEvents_def)
next
  case True
  show ?thesis
  proof (cases "blockNumber ch")
    case None
    then show ?thesis using True by (simp add: processHistoricalEvents_def)
  next
    case (Some c)
    from fuel Some have "nat (c - lastProcessedBlock s + 1) < fuel" by simp
    from backfillLoop_terminates [OF width this] obtain tr where
      tr: "backfillLoop fuel cfg ch (lastProcessedBlock s) c s = Some tr" by blast
    have s1: "sorted (map lastProcessedBlock (s # tr))"
      using backfillLoop_sorted [OF _ tr] width by simp
    have s2: "sorted (map (\<lambda>st. lastProcessedBlock (fst st))
                        ((last (s # tr), []) # poll_run cfg (one_at_a_time chs)
                                                 (last (s # tr), [])))"
      by (rule serial_polls_sorted)
    show ?thesis
      using True Some tr s1 s2
      by (simp add: processHistoricalEvents_def del: last.simps sorted_wrt.simps)
  qed
qed

text \<open>
  Claim C8 fails on the polling loop. The callback compares the head with the cursor
  before it awaits \<^verbatim>\<open>processBlockRange\<close> and assigns the cursor after it. When a
  callback that saw the head \<open>h1\<close> is still pending as the timer fires again and the next
  callback, which sees the greater head \<open>h2\<close> and the same cursor, ends first, the cursor
  is set to \<open>h2\<close> and then, by the first callback, back to \<open>h1\<close>.
\<close>

theorem overlapping_polls_lower_cursor:
  assumes run: "isRunning s"
    and h1: "blockNumber ch1 = Some h1" and h2: "blockNumber ch2 = Some h2"
    and lt1: "lastProcessedBlock s < h1" and lt2: "h1 < h2"
  shows "map (\<lambda>st. lastProcessedBlock (fst st))
           (poll_run cfg [TimerFires ch1, TimerFires ch2, CallbackEnds 1, CallbackEnds 0] (s, []))
         = [lastProcessedBlock s, lastProcessedBlock s, h2, h1]
       \<and> \<not> sorted (map (\<lambda>st. lastProcessedBlock (fst st))
           (poll_run cfg [TimerFires ch1, TimerFires ch2, CallbackEnds 1, CallbackEnds 0] (s, [])))"
proof -
  have b1: "pollBegin ch1 s = (Some (lastProcessedBlock s + 1, h1), s)"
    using run h1 lt1 by (simp add: pollBegin_def)
  have b2: "pollBegin ch2 s = (Some (lastProcessedBlock s + 1, h2), s)"
    using run h2 lt1 lt2 by (simp add: pollBegin_def)
  have "map (\<lambda>st. lastProcessedBlock (fst st))
           (poll_run cfg [TimerFires ch1, TimerFires ch2, CallbackEnds 1, CallbackEnds 0] (s, []))
         = [lastProcessedBlock s, lastProcessedBlock s, h2, h1]"
    by (simp add: b1 b2)
  then show ?thesis using lt1 lt2 by simp
qed

theorem overlapping_polls_lower_cursor_witness:
  "map (\<lambda>st. lastProcessedBlock (fst st))
     (poll_run (ex_config 10)
        [TimerFires (ex_chain\<lparr>blockNumber := Some 125\<rparr>),
         TimerFires (ex_chain\<lparr>blockNumber := Some 130\<rparr>), CallbackEnds 1, CallbackEnds 0]
        (ex_indexer\<lparr>lastProcessedBlock := 120\<rparr>, []))
   = [120, 120, 130, 125]"
proof -
  have a: "isRunning (ex_indexer\<lparr>lastProcessedBlock := 120\<rparr>)"
    by (simp add: ex_indexer_def)
  have b: "blockNumber (ex_chain\<lparr>blockNumber := Some 125\<rparr>) = Some 125"
    "blockNumber (ex_chain\<lparr>blockNumber := Some 130\<rparr>) = Some 130"
    by simp_all
  have c: "lastProcessedBlock (ex_indexer\<lparr>lastProcessedBlock := 120\<rparr>) < 125" "(125::int) < 130"
    by simp_all
  from overlapping_polls_lower_cursor [where cfg = "ex_config 10", OF a b c]
  show ?thesis by simp
qed

text \<open>
  The cursor values of a whole run of the example: three batches of the backfill, then the
  two overlapping callbacks.
\<close>

lemma ex_run_cursors:
  "map_option (map lastProcessedBlock)
     (indexerRun 30 (ex_config 10) ex_chain
        [TimerFires (ex_chain\<lparr>blockNumber := Some 125\<rparr>),
         TimerFires (ex_chain\<lparr>blockNumber := Some 130\<rparr>), CallbackEnds 1, CallbackEnds 0]
        ex_indexer)
   = Some [110, 120, 120, 120, 120, 130, 125]"
  by code_simp


section \<open>Ingestion\<close>

subsection \<open>Stored keys\<close>

lemma key_rows [simp]:
  "event_key (event_row_of ev l ts) = log_key l"
  "event_key (resolved_row_of l ts) = log_key l"
  "event_key (created_row_of mid l ts) = log_key l"
  by (simp_all add: event_key_def log_key_def event_row_of_def resolved_row_of_def
      created_row_of_def)






lemma watch_handleMarketEvent [simp]:
  "marketContracts (handleMarketEvent ch ev l s) = marketContracts s"
  by (simp add: handleMarketEvent_def split: option.splits)








lemma fold_watch_same:
  assumes "\<And>l s. marketContracts (h l s) = marketContracts s"
  shows "marketContracts (fold h ls s) = marketContracts s"
  by (induction ls arbitrary: s) (auto simp: assms)





subsection \<open>One event kind, one market, all markets\<close>


lemma watch_indexEventType [simp]:
  "marketContracts (indexEventType ch m ev a b s) = marketContracts s"
  by (simp add: indexEventType_def fold_watch_same split: sum.splits)




lemma watch_indexMarketEvents [simp]:
  "marketContracts (indexMarketEvents ch m a b s) = marketContracts s"
  by (simp add: indexMarketEvents_def)



lemma watch_all_markets [simp]:
  "marketContracts (fold (\<lambda>m. indexMarketEvents ch m a b) ms s) = marketContracts s"
  by (induction ms arbitrary: s) auto


subsection \<open>The creation logs of a range\<close>





subsection \<open>A pass over a block range\<close>






subsection \<open>The batches of a backfill\<close>









lemma width_irrelevant [simp]:
  "announces (cfg\<lparr>batchSize := w\<rparr>) ch = announces cfg ch"
  "created_ids (cfg\<lparr>batchSize := w\<rparr>) ch = created_ids cfg ch"
  "ingested (cfg\<lparr>batchSize := w\<rparr>) ch = ingested cfg ch"
  "events_follow_creation (cfg\<lparr>batchSize := w\<rparr>) ch = events_follow_creation cfg ch"
  by (auto simp: announces_def created_ids_def ingested_def events_follow_creation_def
        fun_eq_iff)






text \<open>
  The number of stored events after each batch of the example backfill, every query
  answered, for the widths \<open>10\<close> (which divides the interval) and \<open>7\<close> (which does not).
\<close>

lemma ex_backfill_counts:
  "map_option (map (\<lambda>s. length (market_events (idb s))))
     (backfillLoop 30 (ex_config 10) ex_chain 100 120 ex_indexer) = Some [3, 4, 4]
   \<and> map_option (map (\<lambda>s. length (market_events (idb s))))
     (backfillLoop 30 (ex_config 7) ex_chain 100 120 ex_indexer) = Some [2, 3, 4]"
  by code_simp



end
